theory Spec2Isabelle
  imports Complex_Main "HOL-Library.AList"
begin

section \<open>Python values: floats and exceptions\<close>

text \<open>
  The simulator computes with floats.  The value of a float is a real number or one of
  the three special values \<open>+inf\<close>, \<open>-inf\<close> and \<open>nan\<close>; rounding and signed zeros
  are not modelled.  The arithmetic follows IEEE 754 on the special values
  (\<open>inf - inf = nan\<close>, \<open>0 * inf = nan\<close>, every comparison with \<open>nan\<close> is false).
\<close>

datatype fval = Finite_val real | Pos_inf | Neg_inf | Not_a_number

datatype error =
    ZeroDivisionError
  | KeyError
  | AttributeError
  | ValueError
  | OverflowError
  | AssertionError
  | TypeError
  | IndexError
  | GenericException

fun bindE :: "error + 'a \<Rightarrow> ('a \<Rightarrow> error + 'b) \<Rightarrow> error + 'b" where
  "bindE (Inl e) f = Inl e"
| "bindE (Inr x) f = f x"

instantiation fval :: "{plus, minus, uminus, times, abs, ord}"
begin

fun uminus_fval :: "fval \<Rightarrow> fval" where
  "- Finite_val a = Finite_val (- a)"
| "- Pos_inf = Neg_inf"
| "- Neg_inf = Pos_inf"
| "- Not_a_number = Not_a_number"

fun plus_fval :: "fval \<Rightarrow> fval \<Rightarrow> fval" where
  "Finite_val a + Finite_val b = Finite_val (a + b)"
| "Not_a_number + b = Not_a_number"
| "a + Not_a_number = Not_a_number"
| "Pos_inf + Neg_inf = Not_a_number"
| "Neg_inf + Pos_inf = Not_a_number"
| "Pos_inf + b = Pos_inf"
| "a + Pos_inf = Pos_inf"
| "Neg_inf + b = Neg_inf"
| "a + Neg_inf = Neg_inf"

definition minus_fval :: "fval \<Rightarrow> fval \<Rightarrow> fval" where
  "a - b = a + (- (b::fval))"

fun times_fval :: "fval \<Rightarrow> fval \<Rightarrow> fval" where
  "Finite_val a * Finite_val b = Finite_val (a * b)"
| "Not_a_number * b = Not_a_number"
| "a * Not_a_number = Not_a_number"
| "Finite_val a * Pos_inf = (if a = 0 then Not_a_number else if 0 < a then Pos_inf else Neg_inf)"
| "Finite_val a * Neg_inf = (if a = 0 then Not_a_number else if 0 < a then Neg_inf else Pos_inf)"
| "Pos_inf * Finite_val b = (if b = 0 then Not_a_number else if 0 < b then Pos_inf else Neg_inf)"
| "Neg_inf * Finite_val b = (if b = 0 then Not_a_number else if 0 < b then Neg_inf else Pos_inf)"
| "Pos_inf * Pos_inf = Pos_inf"
| "Pos_inf * Neg_inf = Neg_inf"
| "Neg_inf * Pos_inf = Neg_inf"
| "Neg_inf * Neg_inf = Pos_inf"

fun abs_fval :: "fval \<Rightarrow> fval" where
  "\<bar>Finite_val a\<bar> = Finite_val \<bar>a\<bar>"
| "\<bar>Pos_inf\<bar> = Pos_inf"
| "\<bar>Neg_inf\<bar> = Pos_inf"
| "\<bar>Not_a_number\<bar> = Not_a_number"

fun less_fval :: "fval \<Rightarrow> fval \<Rightarrow> bool" where
  "Finite_val a < Finite_val b \<longleftrightarrow> a < b"
| "Not_a_number < b \<longleftrightarrow> False"
| "a < Not_a_number \<longleftrightarrow> False"
| "a < Neg_inf \<longleftrightarrow> False"
| "Pos_inf < b \<longleftrightarrow> False"
| "Finite_val a < Pos_inf \<longleftrightarrow> True"
| "Neg_inf < b \<longleftrightarrow> True"

fun less_eq_fval :: "fval \<Rightarrow> fval \<Rightarrow> bool" where
  "Finite_val a \<le> Finite_val b \<longleftrightarrow> a \<le> b"
| "Not_a_number \<le> b \<longleftrightarrow> False"
| "a \<le> Not_a_number \<longleftrightarrow> False"
| "Neg_inf \<le> b \<longleftrightarrow> True"
| "a \<le> Pos_inf \<longleftrightarrow> True"
| "a \<le> Neg_inf \<longleftrightarrow> False"
| "Pos_inf \<le> b \<longleftrightarrow> False"

instance ..

end

text \<open>
  The quotient of two values as the floating-point unit computes it, which is total: a
  non-zero value over zero is infinite and \<open>0 / 0\<close> is \<open>nan\<close> (the zero counts as
  positive, signed zeros not being modelled).
\<close>

fun ieee_div :: "fval \<Rightarrow> fval \<Rightarrow> fval" where
  "ieee_div (Finite_val a) (Finite_val b) =
     (if b = 0 then (if a = 0 then Not_a_number else if 0 < a then Pos_inf else Neg_inf)
      else Finite_val (a / b))"
| "ieee_div Pos_inf (Finite_val b) = (if 0 \<le> b then Pos_inf else Neg_inf)"
| "ieee_div Neg_inf (Finite_val b) = (if 0 \<le> b then Neg_inf else Pos_inf)"
| "ieee_div (Finite_val a) Pos_inf = Finite_val 0"
| "ieee_div (Finite_val a) Neg_inf = Finite_val 0"
| "ieee_div a b = Not_a_number"

text \<open>
  A number of the program is a value together with the type that carries it at run
  time: a Python number (\<open>float\<close>, or an \<open>int\<close> such as the literal \<open>0\<close>) or a
  \<open>numpy.float64\<close> scalar.  The two print and compare alike but do not divide alike.
  An arithmetic operation with a numpy operand is carried out by numpy and returns a
  numpy scalar; between Python numbers it returns a Python number.  Comparisons look at
  the values only.
\<close>

datatype kind = Py | Np

fun join :: "kind \<Rightarrow> kind \<Rightarrow> kind" where
  "join Py Py = Py"
| "join k l = Np"

datatype pyfloat = Num (kind_of: kind) (val: fval)

abbreviation Fin :: "real \<Rightarrow> pyfloat" where
  "Fin r \<equiv> Num Py (Finite_val r)"

abbreviation PInf :: pyfloat where
  "PInf \<equiv> Num Py Pos_inf"

abbreviation NInf :: pyfloat where
  "NInf \<equiv> Num Py Neg_inf"

abbreviation NaN :: pyfloat where
  "NaN \<equiv> Num Py Not_a_number"

abbreviation NpFin :: "real \<Rightarrow> pyfloat" where
  "NpFin r \<equiv> Num Np (Finite_val r)"

instantiation pyfloat :: "{plus, minus, uminus, times, abs, ord}"
begin

fun uminus_pyfloat :: "pyfloat \<Rightarrow> pyfloat" where
  "- Num k a = Num k (- a)"

fun plus_pyfloat :: "pyfloat \<Rightarrow> pyfloat \<Rightarrow> pyfloat" where
  "Num k a + Num l b = Num (join k l) (a + b)"

fun minus_pyfloat :: "pyfloat \<Rightarrow> pyfloat \<Rightarrow> pyfloat" where
  "Num k a - Num l b = Num (join k l) (a - b)"

fun times_pyfloat :: "pyfloat \<Rightarrow> pyfloat \<Rightarrow> pyfloat" where
  "Num k a * Num l b = Num (join k l) (a * b)"

fun abs_pyfloat :: "pyfloat \<Rightarrow> pyfloat" where
  "\<bar>Num k a\<bar> = Num k \<bar>a\<bar>"

fun less_pyfloat :: "pyfloat \<Rightarrow> pyfloat \<Rightarrow> bool" where
  "Num k a < Num l b \<longleftrightarrow> a < b"

fun less_eq_pyfloat :: "pyfloat \<Rightarrow> pyfloat \<Rightarrow> bool" where
  "Num k a \<le> Num l b \<longleftrightarrow> a \<le> b"

instance ..

end

text \<open>\<open>float(x)\<close> makes a Python float of a number; an element of a numpy array is a
  numpy scalar.\<close>

fun as_py :: "pyfloat \<Rightarrow> pyfloat" where
  "as_py (Num k a) = Num Py a"

fun as_np :: "pyfloat \<Rightarrow> pyfloat" where
  "as_np (Num k a) = Num Np a"

text \<open>\<open>==\<close> on numbers: \<open>nan\<close> is not equal to itself.\<close>

definition py_eq :: "pyfloat \<Rightarrow> pyfloat \<Rightarrow> bool" where
  "py_eq a b \<longleftrightarrow> val a \<noteq> Not_a_number \<and> val b \<noteq> Not_a_number \<and> val a = val b"

text \<open>
  True division \<open>a / b\<close>.  Between two Python numbers a zero divisor raises
  \<open>ZeroDivisionError\<close>.  When either operand is a \<open>numpy.float64\<close>, numpy divides: no
  exception is raised (numpy's default error handling issues a \<open>RuntimeWarning\<close>) and
  the quotient by zero is \<open>inf\<close>, \<open>-inf\<close> or \<open>nan\<close>.
\<close>

fun py_div :: "pyfloat \<Rightarrow> pyfloat \<Rightarrow> error + pyfloat" where
  "py_div (Num k a) (Num l b) =
     (if k = Py \<and> l = Py \<and> b = Finite_val 0 then Inl ZeroDivisionError
      else Inr (Num (join k l) (ieee_div a b)))"

text \<open>\<open>math.sqrt\<close>: a negative argument raises \<open>ValueError\<close>; the functions of the
  \<open>math\<close> module return Python floats.\<close>

fun py_sqrt :: "pyfloat \<Rightarrow> error + pyfloat" where
  "py_sqrt (Num k (Finite_val a)) = (if a < 0 then Inl ValueError else Inr (Fin (sqrt a)))"
| "py_sqrt (Num k Pos_inf) = Inr PInf"
| "py_sqrt (Num k Neg_inf) = Inl ValueError"
| "py_sqrt (Num k Not_a_number) = Inr NaN"

text \<open>
  The builtins \<open>min\<close> and \<open>max\<close> return one of their arguments as it is: the first
  one unless a later one compares strictly smaller (larger), which decides what they
  return on \<open>nan\<close>.
\<close>

definition py_min :: "pyfloat \<Rightarrow> pyfloat \<Rightarrow> pyfloat" where
  "py_min a b = (if b < a then b else a)"

definition py_max :: "pyfloat \<Rightarrow> pyfloat \<Rightarrow> pyfloat" where
  "py_max a b = (if a < b then b else a)"

section \<open>Kinematics (smarts/core/utils/kinematics.py)\<close>

definition time_to_cover :: "pyfloat \<Rightarrow> pyfloat \<Rightarrow> pyfloat \<Rightarrow> error + pyfloat" where
  "time_to_cover distance speed acc =
     (if py_eq distance (Fin 0) then Inr (Fin 0)
      else if \<bar>acc\<bar> < Fin 1000000000 then
        (if py_eq speed (Fin 0) then Inr PInf
         else bindE (py_div distance speed) (\<lambda>t.
              Inr (if Fin 0 \<le> t then t else PInf)))
      else
        (let discriminant = speed * speed + Fin 2 * acc * distance in
         if discriminant < Fin 0 then Inr PInf
         else
           bindE (py_sqrt discriminant) (\<lambda>rad.
           bindE (py_div (rad - speed) acc) (\<lambda>t1.
           bindE (py_div (- (rad + speed)) acc) (\<lambda>t2.
             let mnt = py_min t1 t2 in
             if Fin 0 \<le> mnt then Inr mnt
             else
               (let mxt = py_max t1 t2 in
                if Fin 0 \<le> mxt then Inr mxt else Inr PInf))))))"

definition distance_covered :: "pyfloat \<Rightarrow> pyfloat \<Rightarrow> pyfloat \<Rightarrow> pyfloat" where
  "distance_covered time speed acc = time * (speed + Fin 0.5 * acc * time)"

section \<open>Further float helpers\<close>

text \<open>Truth value of a number in a condition: everything but zero (\<open>nan\<close> included).\<close>

definition py_truthy :: "pyfloat \<Rightarrow> bool" where
  "py_truthy a \<longleftrightarrow> \<not> py_eq a (Fin 0)"

text \<open>\<open>np.clip\<close>, \<open>np.sign\<close> and \<open>np.linalg.norm\<close> return numpy scalars; \<open>nan\<close>
  propagates.\<close>

definition np_clip :: "pyfloat \<Rightarrow> pyfloat \<Rightarrow> pyfloat \<Rightarrow> pyfloat" where
  "np_clip x lo hi =
     Num Np (if val x = Not_a_number then Not_a_number
             else if x < lo then val lo else if hi < x then val hi else val x)"

fun np_sign :: "pyfloat \<Rightarrow> pyfloat" where
  "np_sign (Num k (Finite_val a)) = NpFin (sgn a)"
| "np_sign (Num k Pos_inf) = NpFin 1"
| "np_sign (Num k Neg_inf) = NpFin (- 1)"
| "np_sign (Num k Not_a_number) = Num Np Not_a_number"

fun np_sqrt :: "pyfloat \<Rightarrow> pyfloat" where
  "np_sqrt (Num k (Finite_val a)) = (if a < 0 then Num Np Not_a_number else NpFin (sqrt a))"
| "np_sqrt (Num k Pos_inf) = Num Np Pos_inf"
| "np_sqrt (Num k Neg_inf) = Num Np Not_a_number"
| "np_sqrt (Num k Not_a_number) = Num Np Not_a_number"

definition np_norm :: "pyfloat list \<Rightarrow> pyfloat" where
  "np_norm v = np_sqrt (foldl (\<lambda>acc x. acc + x * x) (Fin 0) v)"

text \<open>
  \<open>math.ceil\<close>, \<open>math.log\<close>, \<open>math.sin\<close>, \<open>math.cos\<close>, \<open>math.tan\<close> with the
  exceptions of the \<open>math\<close> module on the special values, and the float remainder
  \<open>x % y\<close> for a positive finite Python float \<open>y\<close>.
\<close>

fun py_ceil :: "pyfloat \<Rightarrow> error + int" where
  "py_ceil (Num k (Finite_val a)) = Inr \<lceil>a\<rceil>"
| "py_ceil (Num k Pos_inf) = Inl OverflowError"
| "py_ceil (Num k Neg_inf) = Inl OverflowError"
| "py_ceil (Num k Not_a_number) = Inl ValueError"

fun py_log :: "pyfloat \<Rightarrow> error + pyfloat" where
  "py_log (Num k (Finite_val a)) = (if a \<le> 0 then Inl ValueError else Inr (Fin (ln a)))"
| "py_log (Num k Pos_inf) = Inr PInf"
| "py_log (Num k Neg_inf) = Inl ValueError"
| "py_log (Num k Not_a_number) = Inr NaN"

fun py_sin :: "pyfloat \<Rightarrow> error + pyfloat" where
  "py_sin (Num k (Finite_val a)) = Inr (Fin (sin a))"
| "py_sin (Num k Not_a_number) = Inr NaN"
| "py_sin a = Inl ValueError"

fun py_cos :: "pyfloat \<Rightarrow> error + pyfloat" where
  "py_cos (Num k (Finite_val a)) = Inr (Fin (cos a))"
| "py_cos (Num k Not_a_number) = Inr NaN"
| "py_cos a = Inl ValueError"

fun py_tan :: "pyfloat \<Rightarrow> error + pyfloat" where
  "py_tan (Num k (Finite_val a)) = Inr (Fin (tan a))"
| "py_tan (Num k Not_a_number) = Inr NaN"
| "py_tan a = Inl ValueError"

fun py_mod :: "pyfloat \<Rightarrow> real \<Rightarrow> pyfloat" where
  "py_mod (Num k (Finite_val a)) m = Num k (Finite_val (a - m * of_int \<lfloor>a / m\<rfloor>))"
| "py_mod (Num k a) m = Num k Not_a_number"

text \<open>Dictionary look-up \<open>d[k]\<close> on an insertion-ordered dictionary kept as a list of pairs.\<close>

definition dict_get :: "('k \<times> 'v) list \<Rightarrow> 'k \<Rightarrow> error + 'v" where
  "dict_get d k = (case map_of d k of None \<Rightarrow> Inl KeyError | Some v \<Rightarrow> Inr v)"

section \<open>Data model (smarts/core/local\_traffic\_provider.py and its collaborators)\<close>

type_synonym lane_id = string
type_synonym road_id = string
type_synonym vec3 = "pyfloat \<times> pyfloat \<times> pyfloat"

record pose =
  position :: vec3
  heading :: pyfloat

record dimensions =
  dim_length :: pyfloat
  dim_width :: pyfloat
  dim_height :: pyfloat

datatype actor_role = Unknown | Social | SocialAgent | EgoAgent

record vehicle_state =
  vehicle_id :: string
  pose :: pose
  dimensions :: dimensions
  vehicle_type :: string
  vehicle_config_type :: string
  speed :: pyfloat
  linear_acceleration :: "pyfloat list option"
  source :: string
  role :: actor_role

text \<open>
  The road map is supplied by the host.  Lanes and roads are handles (their ids); the
  accessors of the \<open>RoadMap\<close> interface the provider calls are the fields of this record.
  \<open>road_by_id\<close> tells whether the road exists (the source receives \<open>None\<close> otherwise).
\<close>

record road_map =
  road_by_id :: "road_id \<Rightarrow> bool"
  road_lanes :: "road_id \<Rightarrow> lane_id list"
  road_outgoing_roads :: "road_id \<Rightarrow> road_id list"
  lane_road :: "lane_id \<Rightarrow> road_id"
  lane_index :: "lane_id \<Rightarrow> int"
  lane_length :: "lane_id \<Rightarrow> pyfloat"
  lane_speed_limit :: "lane_id \<Rightarrow> pyfloat option"
  composite_lane :: "lane_id \<Rightarrow> lane_id"
  outgoing_lanes :: "lane_id \<Rightarrow> lane_id list"
  to_lane_coord :: "lane_id \<Rightarrow> vec3 \<Rightarrow> pyfloat \<times> pyfloat"
  from_lane_coord :: "lane_id \<Rightarrow> pyfloat \<Rightarrow> vec3"
  offset_along_lane :: "lane_id \<Rightarrow> vec3 \<Rightarrow> pyfloat"
  vector_at_offset :: "lane_id \<Rightarrow> pyfloat \<Rightarrow> pyfloat \<times> pyfloat"
  width_at_offset :: "lane_id \<Rightarrow> pyfloat \<Rightarrow> pyfloat"
  curvature_radius_at_offset :: "lane_id \<Rightarrow> pyfloat \<Rightarrow> int \<Rightarrow> pyfloat"
  nearest_lane :: "vec3 \<Rightarrow> pyfloat \<Rightarrow> lane_id option"
  nearest_lanes :: "vec3 \<Rightarrow> pyfloat \<Rightarrow> (lane_id \<times> pyfloat) list"

text \<open>
  Polygons are built by \<open>shapely\<close>: the box of \<open>bbox\<close>, rotated by the heading, and the
  reserved areas handed in by the host.  The intersection test is a parameter.
\<close>

datatype polygon =
    Rotated_box pyfloat pyfloat pyfloat pyfloat pyfloat
  | Host_polygon "(pyfloat \<times> pyfloat) list"

text \<open>
  Everything the provider takes from outside and never changes: the road map, the table
  \<open>VEHICLE_CONFIGS\<close>, the helpers of \<open>utils.math\<close> and \<open>coordinates\<close>, the polygon
  intersection test, the product \<open>k * dimensions\<close> of a float and a \<open>Dimensions\<close> object
  (or the exception it raises), the provider's source string and the draws of the module \<open>random\<close>
  (\<open>random_uniform k\<close> is the value of the \<open>k\<close>-th draw when it is a \<open>random.random()\<close>,
  \<open>random_gauss k mu sigma\<close> when it is a \<open>random.gauss(mu, sigma)\<close>; both are Python
  floats).  \<open>radians_to_vec\<close> returns a numpy array, whose two elements are given here.
\<close>

record env =
  the_road_map :: road_map
  vehicle_configs :: "string \<Rightarrow> dimensions option"
  radians_to_vec :: "pyfloat \<Rightarrow> pyfloat \<times> pyfloat"
  vec_to_radians :: "pyfloat \<times> pyfloat \<Rightarrow> pyfloat"
  min_angles_difference_signed :: "pyfloat \<Rightarrow> pyfloat \<Rightarrow> pyfloat"
  mk_heading :: "pyfloat \<Rightarrow> pyfloat"
  intersects :: "polygon \<Rightarrow> polygon \<Rightarrow> bool"
  scale_dimensions :: "pyfloat \<Rightarrow> dimensions \<Rightarrow> error + pyfloat"
  source_str :: string
  random_uniform :: "nat \<Rightarrow> pyfloat"
  random_gauss :: "nat \<Rightarrow> pyfloat \<Rightarrow> pyfloat \<Rightarrow> pyfloat"

text \<open>
  A vehicle type is the attribute map of a \<open>vType\<close> element: numeric attributes and
  textual ones (\<open>id\<close>, \<open>vClass\<close>).  The source reads a numeric attribute as
  \<open>float(self._vtype.get(k, default))\<close>.
\<close>

record vtype =
  num_attr :: "string \<Rightarrow> pyfloat option"
  str_attr :: "string \<Rightarrow> string option"

definition vtype_get :: "vtype \<Rightarrow> string \<Rightarrow> pyfloat \<Rightarrow> pyfloat" where
  "vtype_get vt k dflt = as_py (case num_attr vt k of None \<Rightarrow> dflt | Some v \<Rightarrow> v)"

datatype pos_token = PosMax | PosRandom | PosNum pyfloat

datatype speed_token = SpeedRandom | SpeedMax | SpeedLimit | SpeedNum pyfloat

text \<open>A flow dictionary; an absent key is \<open>None\<close>.\<close>

record flow =
  flow_id :: string
  flow_vtype :: vtype
  flow_route :: "road_id list"
  flow_route_id :: int
  flow_begin :: pyfloat
  flow_end :: pyfloat
  emit_period :: pyfloat
  last_added :: "pyfloat option"
  departLane :: "int option"
  departPos :: "pos_token option"
  departSpeed :: "speed_token option"
  arrivalLane :: "int option"
  arrivalPos :: "pos_token option"

record lane_window =
  lw_lane :: lane_id
  time_left :: pyfloat
  adj_time_left :: pyfloat
  ttre :: pyfloat
  gap :: pyfloat
  lane_coord :: "pyfloat \<times> pyfloat"
  agent_gap :: "pyfloat option"

text \<open>
  A traffic actor.  The attributes \<open>__init__\<close> sets are the fields of \<open>actor_init\<close>;
  the factories and the stepping code add the others.  Of these, an attribute that is
  created only while stepping is an option: reading it while absent raises
  \<open>AttributeError\<close>.  The actor keeps the flow it was built from; of the flow's entries
  only \<open>last_added\<close> changes later, and no actor reads it.
\<close>

record actor_init =
  all_vehicle_states :: "vehicle_state list"
  a_flow :: flow
  a_vtype :: vtype
  route_ind :: int
  done_with_route :: bool
  off_route :: bool
  a_route :: "road_id list"
  a_route_id :: int
  lane_speed :: "(int \<times> pyfloat \<times> pyfloat) list"
  lane_windows :: "(int \<times> lane_window) list"
  lane_win :: "lane_window option"
  target_lane_win :: "lane_window option"
  min_space_cush :: pyfloat
  speed_factor :: pyfloat
  cutting_into :: "lane_window option"
  in_front_after_cutin_secs :: pyfloat
  cutin_hold_secs :: pyfloat
  target_cutin_gap :: pyfloat
  aggressiveness :: pyfloat
  cutin_prob :: pyfloat

record actor = actor_init +
  a_lane :: lane_id
  a_offset :: pyfloat
  a_state :: vehicle_state
  dest_lane :: lane_id
  dest_offset :: pyfloat
  in_front_secs :: "pyfloat option"
  target_speed :: "pyfloat option"
  next_pose :: "pose option"
  next_speed :: "pyfloat option"
  next_linear_acceleration :: "pyfloat list option"

text \<open>
  The provider.  Dictionaries iterated in insertion order are lists of pairs; the
  route-length tables are finite as well.  \<open>rng_draws\<close> counts the draws made so far
  from the module \<open>random\<close>.
\<close>

record provider =
  endless_traffic :: bool
  flows :: "(string \<times> flow) list"
  my_actors :: "(string \<times> actor) list"
  other_vehicles :: "(string \<times> vehicle_state \<times> road_id list option) list"
  reserved_areas :: "(string \<times> polygon) list"
  route_lane_lengths :: "(int \<times> ((lane_id \<times> int) \<times> pyfloat) list) list"
  actors_created :: nat
  nearest_lanes_cache :: "(string \<times> lane_id option) list"
  offsets_cache :: "(string \<times> (lane_id \<times> pyfloat) list) list"
  rng_draws :: nat

section \<open>The lane-window analyzer\<close>

text \<open>The properties \<open>speed\<close> and \<open>acceleration\<close> of a traffic actor.\<close>

definition a_speed :: "actor \<Rightarrow> pyfloat" where
  "a_speed a = speed (a_state a)"

definition acceleration :: "actor \<Rightarrow> pyfloat" where
  "acceleration a =
     (case linear_acceleration (a_state a) of None \<Rightarrow> Fin 0 | Some v \<Rightarrow> np_norm v)"

text \<open>
  \<open>LocalTrafficProvider._cached_lane_offset\<close>: two nested \<open>setdefault\<close> calls; the offset
  is computed in any case and stored only if the key is new.
\<close>

definition cached_lane_offset ::
  "env \<Rightarrow> provider \<Rightarrow> vehicle_state \<Rightarrow> lane_id \<Rightarrow> provider \<times> pyfloat" where
  "cached_lane_offset env prov vs lane =
     (let lane_offsets =
            (case map_of (offsets_cache prov) (vehicle_id vs) of None \<Rightarrow> [] | Some d \<Rightarrow> d);
          computed = offset_along_lane (the_road_map env) lane (position (pose vs))
      in case map_of lane_offsets lane of
           Some v \<Rightarrow>
             (prov\<lparr>offsets_cache :=
                AList.update (vehicle_id vs) lane_offsets (offsets_cache prov)\<rparr>, v)
         | None \<Rightarrow>
             (prov\<lparr>offsets_cache :=
                AList.update (vehicle_id vs) (AList.update lane computed lane_offsets)
                  (offsets_cache prov)\<rparr>, computed))"

subsection \<open>\<open>_LaneWindow\<close>\<close>

text \<open>
  \<open>width\<close> and \<open>radius\<close> are cached properties and \<open>_angle_scale\<close>, \<open>exit_time\<close> are
  memoised; they depend on the window's immutable fields and on the road map only, so
  they are functions of the window.
\<close>

definition lw_width :: "env \<Rightarrow> lane_window \<Rightarrow> pyfloat" where
  "lw_width env lw = width_at_offset (the_road_map env) (lw_lane lw) (fst (lane_coord lw))"

definition lw_radius :: "env \<Rightarrow> lane_window \<Rightarrow> error + pyfloat" where
  "lw_radius env lw =
     bindE (py_ceil (Fin 2 * lw_width env lw)) (\<lambda>c.
       Inr (curvature_radius_at_offset (the_road_map env) (lw_lane lw)
              (fst (lane_coord lw)) (max c 2)))"

definition theta :: pyfloat where
  "theta = Fin (pi / 6)"

definition angle_scale :: "env \<Rightarrow> lane_window \<Rightarrow> int \<Rightarrow> error + pyfloat" where
  "angle_scale env lw to_index =
     bindE (lw_radius env lw) (\<lambda>radius.
       if Fin 100000 < \<bar>radius\<bar> \<or> py_eq radius (Fin 0) then
         bindE (py_sin theta) (\<lambda>sn. py_div (Fin 1) sn)
       else
         bindE (py_div radius (lw_width env lw)) (\<lambda>T.
           if lane_index (the_road_map env) (lw_lane lw) < to_index then
             (let se = T * (T - Fin 1) in
              bindE (py_tan theta) (\<lambda>tn.
              bindE (py_div (Fin 1) (tn * (T - Fin 1))) (\<lambda>q.
              bindE (py_cos q) (\<lambda>c.
                py_sqrt (Fin 2 * (se + Fin 0.5 - se * c))))))
           else
             (let se = T * (T + Fin 1) in
              bindE (py_tan theta) (\<lambda>tn.
              bindE (py_div (Fin 1) (tn * (T + Fin 1))) (\<lambda>q.
              bindE (py_cos q) (\<lambda>c.
                py_sqrt (Fin 2 * (se + Fin 0.5 - se * c))))))))"

definition crossing_time_at_speed ::
  "env \<Rightarrow> lane_window \<Rightarrow> int \<Rightarrow> pyfloat \<Rightarrow> pyfloat \<Rightarrow> error + pyfloat" where
  "crossing_time_at_speed env lw to_index spd acc =
     bindE (angle_scale env lw to_index) (\<lambda>sc.
       time_to_cover (sc * lw_width env lw) spd acc)"

definition exit_time ::
  "env \<Rightarrow> lane_window \<Rightarrow> pyfloat \<Rightarrow> int \<Rightarrow> pyfloat \<Rightarrow> error + pyfloat" where
  "exit_time env lw spd to_index acc =
     bindE (crossing_time_at_speed env lw to_index spd acc) (\<lambda>ct.
       let t = snd (lane_coord lw);
           pm = (if lane_index (the_road_map env) (lw_lane lw) \<le> to_index
                 then Fin (- 1) else Fin 1) * np_sign t
       in bindE (angle_scale env lw to_index) (\<lambda>sc.
          bindE (time_to_cover (sc * \<bar>t\<bar>) spd acc) (\<lambda>tc.
            Inr (Fin 0.5 * ct + pm * tc))))"

subsection \<open>\<open>_connected_route_lanes\<close>\<close>

definition max_rind :: "((lane_id \<times> int) \<times> pyfloat) list \<Rightarrow> int" where
  "max_rind route_lens = foldr (\<lambda>kv m. max (snd (fst kv)) m) route_lens 0"

function connected_route_lanes ::
  "road_map \<Rightarrow> lane_id \<Rightarrow> lane_id \<Rightarrow> ((lane_id \<times> int) \<times> pyfloat) list \<Rightarrow> int \<Rightarrow> bool" where
  "connected_route_lanes rm start_lane end_lane route_lens r_ind =
     list_ex (\<lambda>ogl.
         if composite_lane rm ogl = end_lane then True
         else if map_of route_lens (composite_lane rm ogl, r_ind + 1) \<noteq> None
         then connected_route_lanes rm (composite_lane rm ogl) end_lane route_lens (r_ind + 1)
         else False)
       (outgoing_lanes rm start_lane)"
  by pat_completeness auto
termination
proof (relation "measure (\<lambda>(rm, s, e, route_lens, r). nat (max_rind route_lens - r))")
  show "wf (measure (\<lambda>(rm, s, e, route_lens, r). nat (max_rind route_lens - r)))"
    by simp
next
  fix rm :: road_map and start_lane end_lane :: lane_id
    and route_lens :: "((lane_id \<times> int) \<times> pyfloat) list" and r_ind :: int and ogl :: lane_id
  assume "map_of route_lens (composite_lane rm ogl, r_ind + 1) \<noteq> None"
  then obtain v where "((composite_lane rm ogl, r_ind + 1), v) \<in> set route_lens"
    by (auto dest: map_of_SomeD)
  then have "r_ind + 1 \<le> max_rind route_lens"
    unfolding max_rind_def by (induction route_lens) auto
  then show "((rm, composite_lane rm ogl, end_lane, route_lens, r_ind + 1),
              (rm, start_lane, end_lane, route_lens, r_ind))
             \<in> measure (\<lambda>(rm, s, e, route_lens, r). nat (max_rind route_lens - r))"
    by simp
qed

declare connected_route_lanes.simps [simp del]

subsection \<open>\<open>_compute_lane_window\<close>\<close>

record lw_loop =
  lane_ttc :: pyfloat
  lane_ttre :: pyfloat
  lane_gap :: pyfloat
  lw_agent_gap :: "pyfloat option"

text \<open>
  The offset of another vehicle projected on \<open>lane\<close>; \<open>None\<close> where the source goes on
  to the next vehicle (\<open>continue\<close>).  The inner \<open>for rind\<close> loop of the source looks the
  same key up in every round (it reads \<open>self._route_ind\<close>, not \<open>rind\<close>), so it finds a
  truthy length iff its range is not empty and that look-up is truthy.
\<close>

definition other_vehicle_offset ::
  "env \<Rightarrow> provider \<Rightarrow> actor \<Rightarrow> lane_id \<Rightarrow> pyfloat \<Rightarrow> pyfloat \<Rightarrow>
   ((lane_id \<times> int) \<times> pyfloat) list \<Rightarrow> vehicle_state \<Rightarrow> lane_id \<Rightarrow>
   (provider \<times> pyfloat) option" where
  "other_vehicle_offset env prov a lane my_offset path_len my_route_lens ovs ov_lane =
     (if ov_lane = lane then Some (cached_lane_offset env prov ovs lane)
      else if route_ind a + 1 < int (length (a_route a)) then
        (case map_of my_route_lens (ov_lane, route_ind a) of
           None \<Rightarrow> None
         | Some ov_route_len \<Rightarrow>
             if py_truthy ov_route_len then
               (let connected =
                      (if ov_route_len < path_len
                       then connected_route_lanes (the_road_map env) lane ov_lane
                              my_route_lens (route_ind a)
                       else connected_route_lanes (the_road_map env) ov_lane lane
                              my_route_lens (route_ind a))
                in if \<not> connected then None
                   else (case cached_lane_offset env prov ovs ov_lane of
                           (prov', ov_offset) \<Rightarrow>
                             Some (prov', ov_offset + (my_offset + (path_len - ov_route_len)))))
             else None)
      else None)"

text \<open>
  The two branches of the loop body of \<open>_compute_lane_window\<close>: the other vehicle is
  ahead (\<open>my_offset <= ov_offset\<close>) or behind; each returns the new loop variables.
\<close>

definition vehicle_ahead ::
  "actor \<Rightarrow> lw_loop \<Rightarrow> pyfloat \<Rightarrow> pyfloat \<Rightarrow> pyfloat \<Rightarrow> pyfloat \<Rightarrow> error + lw_loop" where
  "vehicle_ahead a st my_front_offset ov_back_offset speed_delta acc_delta =
     (let ov_front_gap = py_max (ov_back_offset - my_front_offset) (Fin 0);
          st1 = (if ov_front_gap < lane_gap st then st\<lparr>lane_gap := ov_front_gap\<rparr> else st)
      in
      if Fin 0 < lane_ttc st1 then
        (let ntc = py_max (ov_front_gap - min_space_cush a) (Fin 0) in
         bindE (time_to_cover ntc speed_delta acc_delta) (\<lambda>tc.
           let ov_ttc = py_max tc (Fin 0) in
           Inr (if ov_ttc < lane_ttc st1 then st1\<lparr>lane_ttc := ov_ttc\<rparr> else st1)))
      else Inr st1)"

definition vehicle_behind ::
  "actor \<Rightarrow> lw_loop \<Rightarrow> pyfloat \<Rightarrow> pyfloat \<Rightarrow> pyfloat \<Rightarrow> pyfloat \<Rightarrow> actor_role \<Rightarrow>
   error + lw_loop" where
  "vehicle_behind a st my_back_offset ov_front_offset speed_delta acc_delta ov_role =
     (let ov_back_gap = py_max (my_back_offset - ov_front_offset - min_space_cush a) (Fin 0) in
      bindE (time_to_cover ov_back_gap (- speed_delta) (- acc_delta)) (\<lambda>ov_ttre.
        let st1 = (if ov_ttre < lane_ttre st then st\<lparr>lane_ttre := ov_ttre\<rparr> else st) in
        Inr (if ov_role = EgoAgent \<and>
                (case lw_agent_gap st1 of
                   None \<Rightarrow> True
                 | Some g \<Rightarrow> Fin 0 < ov_back_gap \<and> ov_back_gap < g)
             then st1\<lparr>lw_agent_gap := Some ov_back_gap\<rparr> else st1)))"

text \<open>
  The part of the loop body that follows the computation of \<open>ov_offset\<close>: the new loop
  variables and whether the loop is left by \<open>break\<close>.
\<close>

definition window_for_vehicle ::
  "env \<Rightarrow> actor \<Rightarrow> lane_id \<Rightarrow> pyfloat \<Rightarrow> lw_loop \<Rightarrow> vehicle_state \<Rightarrow> pyfloat \<Rightarrow>
   error + (lw_loop \<times> bool)" where
  "window_for_vehicle env a lane my_offset st ovs ov_offset =
     (let my_front_offset = my_offset + Fin 0.5 * dim_length (dimensions (a_state a));
          my_back_offset = my_offset - Fin 0.5 * dim_length (dimensions (a_state a));
          ov_front_offset = ov_offset + Fin 0.5 * dim_length (dimensions ovs);
          ov_back_offset = ov_offset - Fin 0.5 * dim_length (dimensions ovs)
      in
      bindE (dict_get (lane_speed a) (lane_index (the_road_map env) lane))
        (\<lambda>(my_speed, my_acc).
          let speed_delta = my_speed - speed ovs;
              acc_delta = (case linear_acceleration ovs of
                             None \<Rightarrow> my_acc
                           | Some v \<Rightarrow> my_acc - np_norm v)
          in
          bindE
            (if my_offset \<le> ov_offset then
               vehicle_ahead a st my_front_offset ov_back_offset speed_delta acc_delta
             else if Fin 0 < lane_ttre st then
               vehicle_behind a st my_back_offset ov_front_offset speed_delta acc_delta
                 (role ovs)
             else Inr st)
            (\<lambda>st2.
              if py_eq (lane_ttc st2) (Fin 0) \<and> py_eq (lane_ttre st2) (Fin 0) then
                (if lane_gap st2 \<le> min_space_cush a then Inr (st2, True)
                 else Inl AssertionError)
              else Inr (st2, False))))"

text \<open>
  One round of the loop over all vehicle states: the new provider (offset cache), the
  new loop variables and whether the loop is left by \<open>break\<close>.
\<close>

definition lane_window_visit ::
  "env \<Rightarrow> actor \<Rightarrow> lane_id \<Rightarrow> pyfloat \<Rightarrow> pyfloat \<Rightarrow> ((lane_id \<times> int) \<times> pyfloat) list \<Rightarrow>
   provider \<Rightarrow> lw_loop \<Rightarrow> vehicle_state \<Rightarrow> error + (provider \<times> lw_loop \<times> bool)" where
  "lane_window_visit env a lane my_offset path_len my_route_lens prov st ovs =
     (if vehicle_id ovs = vehicle_id (a_state a) then Inr (prov, st, False)
      else
        bindE (dict_get (nearest_lanes_cache prov) (vehicle_id ovs)) (\<lambda>cached.
        case cached of
          None \<Rightarrow> Inr (prov, st, False)
        | Some ov_lane0 \<Rightarrow>
           (case other_vehicle_offset env prov a lane my_offset path_len my_route_lens ovs
                   (composite_lane (the_road_map env) ov_lane0) of
              None \<Rightarrow> Inr (prov, st, False)
            | Some (prov', ov_offset) \<Rightarrow>
                bindE (window_for_vehicle env a lane my_offset st ovs ov_offset)
                  (\<lambda>(st2, brk). Inr (prov', st2, brk)))))"

fun lane_window_loop ::
  "env \<Rightarrow> actor \<Rightarrow> lane_id \<Rightarrow> pyfloat \<Rightarrow> pyfloat \<Rightarrow> ((lane_id \<times> int) \<times> pyfloat) list \<Rightarrow>
   provider \<Rightarrow> lw_loop \<Rightarrow> vehicle_state list \<Rightarrow> error + (provider \<times> lw_loop)" where
  "lane_window_loop env a lane my_offset path_len my_route_lens prov st [] = Inr (prov, st)"
| "lane_window_loop env a lane my_offset path_len my_route_lens prov st (ovs # rest) =
     bindE (lane_window_visit env a lane my_offset path_len my_route_lens prov st ovs)
       (\<lambda>(prov', st', brk).
          if brk then Inr (prov', st')
          else lane_window_loop env a lane my_offset path_len my_route_lens prov' st' rest)"

text \<open>
  \<open>_compute_lane_window(lane, next_route_road)\<close>; the second argument is never read by
  the source and is left out.
\<close>

definition compute_lane_window ::
  "env \<Rightarrow> provider \<Rightarrow> actor \<Rightarrow> lane_id \<Rightarrow> error + (provider \<times> actor)" where
  "compute_lane_window env prov a lane =
     (let rm = the_road_map env;
          lane_coord0 = to_lane_coord rm lane (position (pose (a_state a)));
          my_offset = fst lane_coord0
      in
      bindE (dict_get (route_lane_lengths prov) (a_route_id a)) (\<lambda>my_route_lens.
      let path_len0 = (case map_of my_route_lens (lane, route_ind a) of
                         None \<Rightarrow> lane_length rm lane
                       | Some v \<Rightarrow> v);
          path_len = path_len0 - my_offset
      in
      bindE (py_div path_len (a_speed a)) (\<lambda>lane_time_left.
      bindE (lane_window_loop env a lane my_offset path_len my_route_lens prov
               \<lparr>lane_ttc = PInf, lane_ttre = PInf, lane_gap = PInf, lw_agent_gap = None\<rparr>
               (all_vehicle_states a))
        (\<lambda>(prov', st).
           Inr (prov',
                a\<lparr>lane_windows :=
                    AList.update (lane_index rm lane)
                      \<lparr>lw_lane = lane,
                       time_left = py_min lane_time_left (lane_ttc st),
                       adj_time_left = py_min lane_time_left (lane_ttc st),
                       ttre = lane_ttre st,
                       gap = lane_gap st,
                       lane_coord = lane_coord0,
                       agent_gap = lw_agent_gap st\<rparr>
                      (lane_windows a)\<rparr>)))))"

subsection \<open>\<open>_crossing_time_into\<close> and \<open>_compute_lane_windows\<close>\<close>

fun sum_crossing ::
  "env \<Rightarrow> actor \<Rightarrow> int \<Rightarrow> pyfloat \<Rightarrow> int list \<Rightarrow> error + pyfloat" where
  "sum_crossing env a target_idx cross_time [] = Inr cross_time"
| "sum_crossing env a target_idx cross_time (i # is) =
     bindE (dict_get (lane_windows a) i) (\<lambda>lw.
     bindE (crossing_time_at_speed env lw target_idx (a_speed a) (acceleration a)) (\<lambda>lct.
       sum_crossing env a target_idx
         (cross_time + (if i = target_idx then lct * Fin 0.5 else lct)) is))"

fun crossing_blocked :: "actor \<Rightarrow> pyfloat \<Rightarrow> int list \<Rightarrow> error + bool" where
  "crossing_blocked a cross_time [] = Inr False"
| "crossing_blocked a cross_time (i # is) =
     bindE (dict_get (lane_windows a) i) (\<lambda>lw.
       if py_min (time_left lw) (ttre lw) \<le> cross_time then Inr True
       else crossing_blocked a cross_time is)"

definition crossing_time_into :: "env \<Rightarrow> actor \<Rightarrow> int \<Rightarrow> error + (pyfloat \<times> bool)" where
  "crossing_time_into env a target_idx =
     (let my_idx = lane_index (the_road_map env) (a_lane a) in
      if my_idx = target_idx then Inr (Fin 0, True)
      else
        (let min_idx = min target_idx (my_idx + 1);
             max_idx = max (target_idx + 1) my_idx
         in
         bindE (dict_get (lane_windows a) my_idx) (\<lambda>my_lw.
         bindE (exit_time env my_lw (a_speed a) target_idx (acceleration a)) (\<lambda>ct0.
         bindE (sum_crossing env a target_idx ct0 [min_idx..max_idx - 1]) (\<lambda>cross_time.
         bindE (crossing_blocked a cross_time [min_idx..max_idx - 1]) (\<lambda>blocked.
           Inr (cross_time, \<not> blocked)))))))"

fun compute_windows_of_lanes ::
  "env \<Rightarrow> provider \<Rightarrow> actor \<Rightarrow> lane_id list \<Rightarrow> error + (provider \<times> actor)" where
  "compute_windows_of_lanes env prov a [] = Inr (prov, a)"
| "compute_windows_of_lanes env prov a (lane # lanes) =
     bindE (compute_lane_window env prov a lane) (\<lambda>(prov', a').
       compute_windows_of_lanes env prov' a' lanes)"

fun adjust_time_left :: "env \<Rightarrow> actor \<Rightarrow> int list \<Rightarrow> error + actor" where
  "adjust_time_left env a [] = Inr a"
| "adjust_time_left env a (index # rest) =
     bindE (crossing_time_into env a index) (\<lambda>(ct, feasible).
     bindE (dict_get (lane_windows a) index) (\<lambda>lw.
       adjust_time_left env
         (a\<lparr>lane_windows :=
              AList.update index (lw\<lparr>adj_time_left := adj_time_left lw - ct\<rparr>)
                (lane_windows a)\<rparr>)
         rest))"

text \<open>
  \<open>_compute_lane_windows\<close>.  The source also searches the route for the road after the
  current one, a value \<open>_compute_lane_window\<close> never reads.
\<close>

definition compute_lane_windows :: "env \<Rightarrow> provider \<Rightarrow> actor \<Rightarrow> error + (provider \<times> actor)" where
  "compute_lane_windows env prov a =
     (let rm = the_road_map env in
      bindE (compute_windows_of_lanes env prov (a\<lparr>lane_windows := []\<rparr>)
               (road_lanes rm (lane_road rm (a_lane a)))) (\<lambda>(prov', a').
      bindE (adjust_time_left env a' (map fst (lane_windows a'))) (\<lambda>a''.
        Inr (prov', a''))))"

section \<open>The lane selector\<close>

definition should_cutin ::
  "env \<Rightarrow> provider \<Rightarrow> actor \<Rightarrow> lane_window \<Rightarrow> error + (provider \<times> bool)" where
  "should_cutin env prov a lw =
     (let rm = the_road_map env in
      if lane_index rm (lw_lane lw) = lane_index rm (a_lane a) then Inr (prov, False)
      else
        bindE (py_div (target_cutin_gap a) (aggressiveness a)) (\<lambda>min_gap.
        let max_gap = target_cutin_gap a + Fin 2 in
        case agent_gap lw of
          None \<Rightarrow> Inl TypeError
        | Some g \<Rightarrow>
            if min_gap < g \<and> g < max_gap then
              bindE (crossing_time_into env a (lane_index rm (lw_lane lw))) (\<lambda>(ct, feasible).
                if feasible then
                  Inr (prov\<lparr>rng_draws := Suc (rng_draws prov)\<rparr>,
                       as_py (random_uniform env (rng_draws prov)) < cutin_prob a)
                else Inr (prov, False))
            else Inr (prov, False)))"

text \<open>
  The cut-in persistence block of \<open>_pick_lane\<close> (the \<open>if self._cutting_into and ...\<close>
  statement): the actor, the best window so far and whether the loop is left by \<open>break\<close>.
  The held time is added to \<open>_in_front_after_cutin_secs\<close>; the test reads \<open>_in_front_secs\<close>.
\<close>

definition keep_cutting_in ::
  "env \<Rightarrow> pyfloat \<Rightarrow> actor \<Rightarrow> lane_window \<Rightarrow> error + (actor \<times> lane_window \<times> bool)" where
  "keep_cutting_in env dt a best_lw =
     (case cutting_into a of
        None \<Rightarrow> Inr (a, best_lw, False)
      | Some ci \<Rightarrow>
          bindE (crossing_time_into env a (lane_index (the_road_map env) (lw_lane ci)))
            (\<lambda>(ct, feasible).
              if \<not> feasible then Inr (a, best_lw, False)
              else if lw_lane ci \<noteq> a_lane a then Inr (a, ci, True)
              else
                (let a1 = a\<lparr>in_front_after_cutin_secs := in_front_after_cutin_secs a + dt\<rparr> in
                 case in_front_secs a1 of
                   None \<Rightarrow> Inl AttributeError
                 | Some held \<Rightarrow>
                     if held < cutin_hold_secs a1 then Inr (a1, ci, True)
                     else Inr (a1, ci, False))))"

text \<open>
  The last statement of a round of the \<open>while\<close> loop of \<open>_pick_lane\<close>
  (\<open>if lw.agent_gap and self._should_cutin(lw): ... elif ...\<close>).
\<close>

definition consider_lane ::
  "env \<Rightarrow> provider \<Rightarrow> actor \<Rightarrow> lane_window \<Rightarrow> lane_window \<Rightarrow> int \<Rightarrow>
   error + (provider \<times> actor \<times> lane_window)" where
  "consider_lane env prov a best_lw lw idx =
     bindE
       (if (case agent_gap lw of None \<Rightarrow> False | Some g \<Rightarrow> py_truthy g)
        then should_cutin env prov a lw else Inr (prov, False))
       (\<lambda>(prov', cutin).
          if cutin then Inr (prov', a\<lparr>cutting_into := Some lw\<rparr>, lw)
          else if adj_time_left best_lw < adj_time_left lw
                  \<or> (py_eq (adj_time_left lw) (adj_time_left best_lw)
                      \<and> ((lw_lane lw = dest_lane a \<and> a_offset a < dest_offset a)
                          \<or> (ttre best_lw < ttre lw
                              \<and> idx < lane_index (the_road_map env) (lw_lane best_lw))))
          then Inr (prov', a, lw)
          else Inr (prov', a, best_lw))"

text \<open>One round of the \<open>while\<close> loop of \<open>_pick_lane\<close>, up to the increment of \<open>idx\<close>.\<close>

definition pick_lane_visit ::
  "env \<Rightarrow> pyfloat \<Rightarrow> provider \<Rightarrow> actor \<Rightarrow> lane_window \<Rightarrow> int \<Rightarrow>
   error + (provider \<times> actor \<times> lane_window \<times> bool)" where
  "pick_lane_visit env dt prov a best_lw idx =
     bindE (crossing_time_into env a idx) (\<lambda>(ct, feasible).
       if \<not> feasible then Inr (prov, a, best_lw, True)
       else
         bindE (dict_get (lane_windows a) idx) (\<lambda>lw.
           if lw_lane lw = dest_lane a \<and> dest_offset a \<le> fst (lane_coord lw) + gap lw
           then Inr (prov, a, lw, True)
           else
             bindE (keep_cutting_in env dt a best_lw) (\<lambda>(a1, best1, brk).
               if brk then Inr (prov, a1, best1, True)
               else
                 bindE (consider_lane env prov
                          (a1\<lparr>cutting_into := None, in_front_secs := Some (Fin 0)\<rparr>)
                          best1 lw idx) (\<lambda>(prov', a2, best2).
                   Inr (prov', a2, best2, False)))))"

text \<open>
  The \<open>while\<close> loop.  \<open>n\<close> is \<open>len(self._lane_windows)\<close>, which no round changes.  The
  loop is entered with \<open>idx = my_idx\<close>, so \<open>0 \<le> my_idx < n\<close> holds whenever its
  condition \<open>0 \<le> idx < n\<close> does; the guard spells this out.
\<close>

function pick_lane_loop ::
  "env \<Rightarrow> pyfloat \<Rightarrow> int \<Rightarrow> int \<Rightarrow> int \<Rightarrow> provider \<Rightarrow> actor \<Rightarrow> lane_window \<Rightarrow>
   error + (provider \<times> actor \<times> lane_window)" where
  "pick_lane_loop env dt n my_idx idx prov a best_lw =
     (if 0 \<le> idx \<and> idx < n \<and> 0 \<le> my_idx \<and> my_idx < n then
        bindE (pick_lane_visit env dt prov a best_lw idx) (\<lambda>(prov', a', best', brk).
          if brk then Inr (prov', a', best')
          else if (idx + 1) mod n = my_idx then Inr (prov', a', best')
          else pick_lane_loop env dt n my_idx ((idx + 1) mod n) prov' a' best')
      else Inr (prov, a, best_lw))"
  by pat_completeness auto
termination
proof -
  have step: "nat (if (idx + 1) mod n < my_idx then my_idx - (idx + 1) mod n
                   else my_idx - (idx + 1) mod n + n)
              < nat (if idx < my_idx then my_idx - idx else my_idx - idx + n)"
    if "0 \<le> idx \<and> idx < n \<and> 0 \<le> my_idx \<and> my_idx < n" and "(idx + 1) mod n \<noteq> my_idx"
    for n my_idx idx :: int
  proof (cases "idx + 1 < n")
    case True
    then have "(idx + 1) mod n = idx + 1"
      using that by (simp add: mod_pos_pos_trivial)
    then show ?thesis
      using that True by auto
  next
    case False
    then have "idx + 1 = n"
      using that by simp
    then have "(idx + 1) mod n = 0"
      by simp
    then show ?thesis
      using that False by auto
  qed
  show ?thesis
    apply (relation "measure (\<lambda>(env, dt, n, my_idx, idx, prov, a, best_lw).
          nat (if idx < my_idx then my_idx - idx else my_idx - idx + n))")
     apply simp
    apply (simp only: in_measure prod.case)
    apply (rule step)
     apply assumption+
    done
qed

declare pick_lane_loop.simps [simp del]

definition pick_lane :: "env \<Rightarrow> pyfloat \<Rightarrow> provider \<Rightarrow> actor \<Rightarrow> error + (provider \<times> actor)" where
  "pick_lane env dt prov a =
     bindE (compute_lane_windows env prov a) (\<lambda>(prov1, a1).
       let my_idx = lane_index (the_road_map env) (a_lane a1) in
       bindE (dict_get (lane_windows a1) my_idx) (\<lambda>my_lw.
         let a2 = a1\<lparr>lane_win := Some my_lw\<rparr> in
         bindE (pick_lane_loop env dt (int (length (lane_windows a2))) my_idx my_idx
                  prov1 a2 my_lw) (\<lambda>(prov3, a3, best_lw).
           Inr (prov3, a3\<lparr>target_lane_win := Some best_lw\<rparr>))))"

section \<open>Controllers\<close>

text \<open>The local function \<open>_get_radius\<close> of \<open>_compute_lane_speeds\<close>.\<close>

definition get_radius ::
  "env \<Rightarrow> provider \<Rightarrow> actor \<Rightarrow> lane_id \<Rightarrow> error + (provider \<times> pyfloat)" where
  "get_radius env prov a lane =
     (case cached_lane_offset env prov (a_state a) lane of
        (prov', l_offset) \<Rightarrow>
          (let l_width = width_at_offset (the_road_map env) lane l_offset in
           bindE (py_ceil (Fin 2 * l_width)) (\<lambda>c.
             Inr (prov', curvature_radius_at_offset (the_road_map env) lane l_offset
                           (max c 2)))))"

fun lane_speeds_loop ::
  "env \<Rightarrow> pyfloat \<Rightarrow> provider \<Rightarrow> actor \<Rightarrow> lane_id list \<Rightarrow> error + (provider \<times> actor)" where
  "lane_speeds_loop env my_radius prov a [] = Inr (prov, a)"
| "lane_speeds_loop env my_radius prov a (l # ls) =
     bindE (get_radius env prov a l) (\<lambda>(prov', l_radius).
     bindE (if \<bar>my_radius\<bar> < Fin 100000 \<and> \<bar>l_radius\<bar> < Fin 100000 then
              bindE (py_div l_radius my_radius) (\<lambda>r. Inr (if r < Fin 0 then Fin 1 else r))
            else Inr (Fin 1)) (\<lambda>ratio.
       lane_speeds_loop env my_radius prov'
         (a\<lparr>lane_speed :=
              AList.update (lane_index (the_road_map env) l)
                (ratio * a_speed a, ratio * acceleration a) (lane_speed a)\<rparr>)
         ls))"

definition compute_lane_speeds ::
  "env \<Rightarrow> provider \<Rightarrow> actor \<Rightarrow> error + (provider \<times> actor)" where
  "compute_lane_speeds env prov a =
     (let rm = the_road_map env; a0 = a\<lparr>lane_speed := []\<rparr> in
      bindE (get_radius env prov a0 (a_lane a0)) (\<lambda>(prov', my_radius).
        lane_speeds_loop env my_radius prov' a0 (road_lanes rm (lane_road rm (a_lane a0)))))"

definition slow_for_curves :: "env \<Rightarrow> actor \<Rightarrow> error + actor" where
  "slow_for_curves env a =
     (case target_speed a of
        None \<Rightarrow> Inl AttributeError
      | Some ts \<Rightarrow>
          bindE (py_log ts) (\<lambda>lg.
          bindE (py_ceil (Fin 1 + lg)) (\<lambda>lookahead.
            let radius = curvature_radius_at_offset (the_road_map env) (a_lane a)
                           (a_offset a) lookahead
            in Inr (a\<lparr>target_speed := Some (py_min (\<bar>radius\<bar> * Fin 0.5714) ts)\<rparr>))))"

definition check_speed :: "env \<Rightarrow> actor \<Rightarrow> error + actor" where
  "check_speed env a =
     (case target_lane_win a of
        None \<Rightarrow> Inl AttributeError
      | Some tlw \<Rightarrow>
          (case lane_speed_limit (the_road_map env) (lw_lane tlw) of
             None \<Rightarrow> slow_for_curves env (a\<lparr>target_speed := Some (a_speed a)\<rparr>)
           | Some limit \<Rightarrow>
               bindE (slow_for_curves env (a\<lparr>target_speed := Some (limit * speed_factor a)\<rparr>))
                 (\<lambda>a1.
                   let max_speed = vtype_get (a_vtype a1) ''maxSpeed'' (Fin 55.55) in
                   case target_speed a1 of
                     None \<Rightarrow> Inl AttributeError
                   | Some ts \<Rightarrow>
                       Inr (if max_speed \<le> ts then a1\<lparr>target_speed := Some max_speed\<rparr>
                            else a1))))"

definition angle_to_lane :: "env \<Rightarrow> actor \<Rightarrow> pyfloat \<Rightarrow> error + pyfloat" where
  "angle_to_lane env a dt =
     (let rm = the_road_map env;
          my_heading = heading (pose (a_state a));
          look_ahead = py_max (dt * a_speed a) (Fin 2)
      in
      case (position (pose (a_state a)), radians_to_vec env my_heading) of
        ((px, py, pz), (vx, vy)) \<Rightarrow>
          (let proj_pt = (as_np (px + look_ahead * vx), as_np (py + look_ahead * vy), Fin 0) in
           case target_lane_win a of
             None \<Rightarrow> Inl AttributeError
           | Some tlw \<Rightarrow>
               (let lane_coord0 = to_lane_coord rm (lw_lane tlw) proj_pt;
                    lat_err = snd lane_coord0;
                    target_vec = vector_at_offset rm (lw_lane tlw) (fst lane_coord0);
                    target_heading = vec_to_radians env target_vec;
                    heading_delta = min_angles_difference_signed env target_heading my_heading
                in Inr (Fin 3.75 * heading_delta - Fin 1.25 * lat_err))))"

text \<open>
  The time cushion and the two severities of \<open>_compute_acceleration\<close>, named as the
  source names its local variables.
\<close>

definition time_cush ::
  "lane_window \<Rightarrow> lane_window \<Rightarrow> pyfloat \<Rightarrow> error + pyfloat" where
  "time_cush target_lw current_lw spd =
     bindE (py_div (gap target_lw) spd) (\<lambda>g1.
     bindE (py_div (gap current_lw) spd) (\<lambda>g2.
       Inr (py_max
              (py_min (py_min (py_min (time_left target_lw) g1) (time_left current_lw)) g2)
              (Fin 0))))"

definition time_severity :: "pyfloat \<Rightarrow> pyfloat \<Rightarrow> error + pyfloat" where
  "time_severity min_time_cush tc = py_div (Fin 3 * (min_time_cush - tc)) min_time_cush"

definition space_severity :: "pyfloat \<Rightarrow> pyfloat \<Rightarrow> error + pyfloat" where
  "space_severity min_space space_cush = py_div (Fin 2 * (min_space - space_cush)) min_space"

definition compute_acceleration :: "env \<Rightarrow> actor \<Rightarrow> pyfloat \<Rightarrow> error + pyfloat" where
  "compute_acceleration env a dt =
     (let emergency_decl = vtype_get (a_vtype a) ''emergencyDecel'' (Fin 4.5) in
      if \<not> Fin 0 \<le> emergency_decl then Inl AssertionError
      else
        case (target_lane_win a, lane_win a) of
          (Some tlw, Some lw) \<Rightarrow>
            bindE (time_cush tlw lw (a_speed a)) (\<lambda>tc.
            let min_time_cush = vtype_get (a_vtype a) ''tau'' (Fin 1) in
            if tc < min_time_cush then
              (if Fin 0 < a_speed a then
                 bindE (time_severity min_time_cush tc) (\<lambda>severity.
                   Inr (- emergency_decl * np_clip severity (Fin 0) (Fin 1)))
               else Inr (Fin 0))
            else
              (let space_cush = py_max (py_min (gap tlw) (gap lw)) (Fin 0) in
               if space_cush < min_space_cush a then
                 (if Fin 0 < a_speed a then
                    bindE (space_severity (min_space_cush a) space_cush) (\<lambda>severity.
                      Inr (- emergency_decl * np_clip severity (Fin 0) (Fin 1)))
                  else Inr (Fin 0))
               else
                 bindE (dict_get (lane_speed a) (lane_index (the_road_map env) (lw_lane tlw)))
                   (\<lambda>(my_speed, my_acc).
                     case target_speed a of
                       None \<Rightarrow> Inl AttributeError
                     | Some ts \<Rightarrow>
                         (let P = Fin 0.006 * (ts - my_speed);
                              I = Fin 0;
                              D = Fin (- 0.001) * my_acc
                          in
                          bindE (py_div (P + I + D) dt) (\<lambda>pid0.
                            let PID = np_clip pid0 (Fin (- 1)) (Fin 1) in
                            if Fin 0 < PID then
                              (let max_accel = vtype_get (a_vtype a) ''accel'' (Fin 2.6) in
                               if \<not> Fin 0 \<le> max_accel then Inl AssertionError
                               else Inr (PID * max_accel))
                            else
                              (let max_decel = vtype_get (a_vtype a) ''decel'' (Fin 4.5) in
                               if \<not> Fin 0 \<le> max_decel then Inl AssertionError
                               else Inr (PID * max_decel)))))))
        | _ \<Rightarrow> Inl AttributeError)"

section \<open>The actor stepper\<close>

text \<open>
  \<open>compute_next_state\<close>.  The next linear acceleration and the next position are numpy
  arrays, so their elements are numpy scalars; the next speed is the plain sum
  \<open>self._state.speed + acceleration * dt\<close>.
\<close>

definition compute_next_state ::
  "env \<Rightarrow> provider \<Rightarrow> actor \<Rightarrow> pyfloat \<Rightarrow> vehicle_state list \<Rightarrow> error + (provider \<times> actor)" where
  "compute_next_state env prov a dt all_states =
     bindE (compute_lane_speeds env prov (a\<lparr>all_vehicle_states := all_states\<rparr>))
       (\<lambda>(prov1, a1).
     bindE (pick_lane env dt prov1 a1) (\<lambda>(prov2, a2).
     bindE (check_speed env a2) (\<lambda>a3.
     bindE (angle_to_lane env a3 dt) (\<lambda>angular_velocity.
     bindE (compute_acceleration env a3 dt) (\<lambda>acc.
       let target_heading =
             py_mod (heading (pose (a_state a3)) + angular_velocity * dt) (2 * pi)
       in
       case (radians_to_vec env target_heading, position (pose (a_state a3))) of
         ((hx, hy), (px, py, pz)) \<Rightarrow>
           Inr (prov2,
                a3\<lparr>next_linear_acceleration :=
                     Some [as_np (dt * acc * hx), as_np (dt * acc * hy)],
                   next_speed := Some (speed (a_state a3) + acc * dt),
                   next_pose :=
                     Some \<lparr>position = (as_np (px + hx * a_speed a3 * dt),
                                       as_np (py + hy * a_speed a3 * dt),
                                       as_np (pz + Fin 0)),
                           heading = mk_heading env target_heading\<rparr>\<rparr>))))))"

datatype depart_arrival = Depart | Arrival

datatype dims_arg = Dims_object dimensions | Dims_length pyfloat

text \<open>
  \<open>_resolve_flow_pos\<close>; \<open>route\<close> is \<open>self._route\<close>.  The last argument is what the
  caller passes as \<open>dimensions\<close>: a \<open>Dimensions\<close> object or a length.
\<close>

definition resolve_flow_pos ::
  "env \<Rightarrow> provider \<Rightarrow> road_id list \<Rightarrow> flow \<Rightarrow> depart_arrival \<Rightarrow> dims_arg \<Rightarrow>
   error + (provider \<times> lane_id \<times> pyfloat)" where
  "resolve_flow_pos env prov route flow da dims =
     (let rm = the_road_map env in
      if route = [] then Inl IndexError
      else
        (let road_id = (if da = Depart then hd route else last route) in
         if \<not> road_by_id rm road_id then Inl GenericException
         else
           case (if da = Depart then departLane flow else arrivalLane flow) of
             None \<Rightarrow> Inl KeyError
           | Some lane_ind \<Rightarrow>
               if \<not> (0 \<le> lane_ind \<and> lane_ind < int (length (road_lanes rm road_id)))
               then Inl GenericException
               else
                 (let lane = road_lanes rm road_id ! nat lane_ind in
                  bindE
                    (case (if da = Depart then departPos flow else arrivalPos flow) of
                       None \<Rightarrow> Inl KeyError
                     | Some PosMax \<Rightarrow>
                         if da = Depart then
                           bindE (case dims of
                                    Dims_object d \<Rightarrow> scale_dimensions env (Fin 0.5) d
                                  | Dims_length l \<Rightarrow> Inr (Fin 0.5 * l)) (\<lambda>half.
                             Inr (prov, lane_length rm lane - half))
                         else Inr (prov, lane_length rm lane)
                     | Some PosRandom \<Rightarrow>
                         Inr (prov\<lparr>rng_draws := Suc (rng_draws prov)\<rparr>,
                              as_py (random_uniform env (rng_draws prov)) * lane_length rm lane)
                     | Some (PosNum x) \<Rightarrow>
                         if Fin 0 \<le> x \<and> x \<le> lane_length rm lane then Inr (prov, as_py x)
                         else Inl GenericException)
                    (\<lambda>(prov', offset).
                       let target_pt = from_lane_coord rm lane offset;
                           lane' = composite_lane rm lane
                       in Inr (prov', lane', offset_along_lane rm lane' target_pt)))))"

text \<open>\<open>_resolve_flow_speed\<close>; \<open>vt\<close> is \<open>self._vtype\<close> and \<open>lane\<close> is \<open>self._lane\<close>.\<close>

definition resolve_flow_speed ::
  "env \<Rightarrow> provider \<Rightarrow> vtype \<Rightarrow> lane_id \<Rightarrow> flow \<Rightarrow> error + (provider \<times> pyfloat)" where
  "resolve_flow_speed env prov vt lane flow =
     (let depart_speed = (case departSpeed flow of None \<Rightarrow> SpeedNum (Fin 0) | Some t \<Rightarrow> t);
          max_speed = vtype_get vt ''maxSpeed'' (Fin 55.5)
      in
      case depart_speed of
        SpeedRandom \<Rightarrow>
          Inr (prov\<lparr>rng_draws := Suc (rng_draws prov)\<rparr>,
               as_py (random_uniform env (rng_draws prov)) * max_speed)
      | SpeedMax \<Rightarrow>
          (case lane_speed_limit (the_road_map env) lane of
             None \<Rightarrow> Inl TypeError
           | Some limit \<Rightarrow> Inr (prov, py_min max_speed limit))
      | SpeedLimit \<Rightarrow>
          (case lane_speed_limit (the_road_map env) lane of
             None \<Rightarrow> Inl GenericException
           | Some limit \<Rightarrow> Inr (prov, limit))
      | SpeedNum x \<Rightarrow>
          if Fin 0 \<le> x then Inr (prov, as_py x) else Inl AssertionError)"

definition reroute :: "env \<Rightarrow> provider \<Rightarrow> actor \<Rightarrow> error + (provider \<times> actor)" where
  "reroute env prov a =
     (let rm = the_road_map env in
      if a_route a = [] then Inl IndexError
      else if hd (a_route a) \<in> set (road_outgoing_roads rm (lane_road rm (a_lane a)))
      then Inr (prov, a\<lparr>route_ind := - 1\<rparr>)
      else
        bindE (resolve_flow_pos env prov (a_route a) (a_flow a) Depart
                 (Dims_object (dimensions (a_state a)))) (\<lambda>(prov1, lane, offset).
          let a1 = a\<lparr>a_lane := lane, a_offset := offset\<rparr>;
              pos = from_lane_coord rm lane offset;
              hdg = vec_to_radians env (vector_at_offset rm lane offset);
              a2 = a1\<lparr>a_state := (a_state a1)\<lparr>pose :=
                        \<lparr>position = pos, heading = mk_heading env hdg\<rparr>\<rparr>\<rparr>
          in
          bindE (resolve_flow_speed env prov1 (a_vtype a2) (a_lane a2) (a_flow a2))
            (\<lambda>(prov2, spd).
              Inr (prov2,
                   a2\<lparr>a_state := (a_state a2)\<lparr>speed := spd,
                          linear_acceleration := Some [NpFin 0, NpFin 0, NpFin 0]\<rparr>,
                      route_ind := 0\<rparr>))))"

text \<open>
  The search of \<open>step\<close> among the nearest lanes: the chosen lane (if any) and whether the
  actor is off its route.
\<close>

fun relocalize ::
  "road_map \<Rightarrow> road_id list \<Rightarrow> lane_id option \<Rightarrow> pyfloat option \<Rightarrow> (lane_id \<times> pyfloat) list \<Rightarrow>
   lane_id option \<times> bool" where
  "relocalize rm route lane best_d [] = (lane, True)"
| "relocalize rm route lane best_d ((nl, d) # nls) =
     (if lane_road rm nl \<in> set route then (Some nl, False)
      else if (case best_d of None \<Rightarrow> True | Some b \<Rightarrow> d < b)
      then relocalize rm route (Some nl) (Some d) nls
      else relocalize rm route lane best_d nls)"

definition step :: "env \<Rightarrow> provider \<Rightarrow> actor \<Rightarrow> pyfloat \<Rightarrow> error + (provider \<times> actor)" where
  "step env prov a dt =
     (case (next_pose a, next_speed a, next_linear_acceleration a) of
        (Some np, Some ns, Some nla) \<Rightarrow>
          (let rm = the_road_map env;
               a1 = a\<lparr>a_state := (a_state a)\<lparr>pose := np, speed := ns,
                                               linear_acceleration := Some nla\<rparr>\<rparr>;
               prev_road_id = lane_road rm (a_lane a1);
               nls = nearest_lanes rm (position np) (dim_length (dimensions (a_state a1)))
           in
           case relocalize rm (a_route a1) None None nls of
             (None, off) \<Rightarrow> Inl AssertionError
           | (Some nl, off) \<Rightarrow>
               (let lane = composite_lane rm nl;
                    a2 = a1\<lparr>a_lane := lane, off_route := off\<rparr>;
                    a3 = (if lane_road rm lane \<noteq> prev_road_id
                          then a2\<lparr>route_ind := route_ind a2 + 1\<rparr> else a2);
                    a4 = a3\<lparr>a_offset := offset_along_lane rm lane (position np)\<rparr>
                in
                if a_lane a4 = dest_lane a4 \<and> dest_offset a4 \<le> a_offset a4 then
                  (if endless_traffic prov then reroute env prov a4
                   else Inr (prov, a4\<lparr>done_with_route := True\<rparr>))
                else Inr (prov, a4)))
      | _ \<Rightarrow> Inl AttributeError)"

section \<open>Building actors\<close>

text \<open>
  \<open>_TrafficActor.__init__\<close>.  The two warnings are sent to \<open>self._log\<close>, an attribute
  the class never defines (the logger is \<open>self._logger\<close>), so reaching either of them
  raises \<open>AttributeError\<close>.
\<close>

definition init_actor :: "env \<Rightarrow> provider \<Rightarrow> flow \<Rightarrow> error + (provider \<times> actor_init)" where
  "init_actor env prov flow =
     (let vt = flow_vtype flow;
          msc = vtype_get vt ''minGap'' (Fin 2.5);
          speed_factor0 = vtype_get vt ''speedFactor'' (Fin 1);
          speed_dev = vtype_get vt ''speedDev'' (Fin 0.1);
          sf = as_py (random_gauss env (rng_draws prov) speed_factor0 speed_dev);
          prov1 = prov\<lparr>rng_draws := Suc (rng_draws prov)\<rparr>;
          aggr = vtype_get vt ''lcAssertive'' (Fin 1)
      in
      if aggr \<le> Fin 0 then Inl AttributeError
      else
        (let cp = vtype_get vt ''lcCutinProb'' (Fin 0) in
         if \<not> (Fin 0 \<le> cp \<and> cp \<le> Fin 1) then Inl AttributeError
         else
           Inr (prov1\<lparr>actors_created := actors_created prov1 + 1\<rparr>,
                \<lparr>all_vehicle_states = [],
                 a_flow = flow,
                 a_vtype = vt,
                 route_ind = 0,
                 done_with_route = False,
                 off_route = False,
                 a_route = flow_route flow,
                 a_route_id = flow_route_id flow,
                 lane_speed = [],
                 lane_windows = [],
                 lane_win = None,
                 target_lane_win = None,
                 min_space_cush = msc,
                 speed_factor = sf,
                 cutting_into = None,
                 in_front_after_cutin_secs = Fin 0,
                 cutin_hold_secs = Fin 3,
                 target_cutin_gap = Fin 2.5 * msc,
                 aggressiveness = aggr,
                 cutin_prob = cp\<rparr>)))"

fun string_of_nat :: "nat \<Rightarrow> string" where
  "string_of_nat n =
     (if n < 10 then [''0123456789'' ! n]
      else string_of_nat (n div 10) @ [''0123456789'' ! (n mod 10)])"

declare string_of_nat.simps [simp del]

definition from_flow :: "env \<Rightarrow> provider \<Rightarrow> flow \<Rightarrow> error + (provider \<times> actor)" where
  "from_flow env prov flow =
     (let rm = the_road_map env in
      case str_attr (flow_vtype flow) ''vClass'' of
        None \<Rightarrow> Inl KeyError
      | Some vclass \<Rightarrow>
         (case vehicle_configs env vclass of
            None \<Rightarrow> Inl KeyError
          | Some dims \<Rightarrow>
             (let vehicle_type0 = (if vclass \<noteq> ''passenger'' then vclass else ''car'') in
              bindE (init_actor env prov flow) (\<lambda>(prov1, new_actor).
              bindE (resolve_flow_pos env prov1 (a_route new_actor) flow Depart
                       (Dims_object dims)) (\<lambda>(prov2, lane, offset).
              let pos = from_lane_coord rm lane offset;
                  hdg = vec_to_radians env (vector_at_offset rm lane offset)
              in
              bindE (resolve_flow_speed env prov2 (a_vtype new_actor) lane flow)
                (\<lambda>(prov3, init_speed).
              case str_attr (a_vtype new_actor) ''id'' of
                None \<Rightarrow> Inl KeyError
              | Some vt_id \<Rightarrow>
                 (let st = \<lparr>vehicle_id = vt_id @ ''-'' @ string_of_nat (actors_created prov3),
                            pose = \<lparr>position = pos, heading = mk_heading env hdg\<rparr>,
                            dimensions = dims,
                            vehicle_type = vehicle_type0,
                            vehicle_config_type = vclass,
                            speed = init_speed,
                            linear_acceleration = Some [NpFin 0, NpFin 0, NpFin 0],
                            source = source_str env,
                            role = Social\<rparr>
                  in
                  bindE (resolve_flow_pos env prov3 (a_route new_actor) flow Arrival
                           (Dims_object dims)) (\<lambda>(prov4, dlane, doffset).
                    Inr (prov4,
                         actor_init.extend new_actor
                           (actor.fields lane offset st dlane doffset
                              None None None None None))))))))))"

text \<open>
  \<open>bbox\<close>.  Its \<open>lru_cache\<close> is cleared whenever a pose is committed or a state is
  replaced, so a call returns the box of the state at the time of the call.
\<close>

definition actor_id :: "actor \<Rightarrow> string" where
  "actor_id a = vehicle_id (a_state a)"

definition bbox :: "actor \<Rightarrow> bool \<Rightarrow> polygon" where
  "bbox a cushion_length =
     (case position (pose (a_state a)) of
        (px, py, pz) \<Rightarrow>
          (let dims = dimensions (a_state a);
               length_buffer = (if cushion_length then min_space_cush a else Fin 0);
               half_len = Fin 0.5 * dim_length dims + length_buffer
           in Rotated_box (px - Fin 0.5 * dim_width dims) (py - half_len)
                (px + Fin 0.5 * dim_width dims) (py + half_len)
                (heading (pose (a_state a)))))"

section \<open>The provider\<close>

definition my_actor_states :: "provider \<Rightarrow> vehicle_state list" where
  "my_actor_states prov = map (\<lambda>(k, actor). a_state actor) (my_actors prov)"

definition other_vehicle_states :: "provider \<Rightarrow> vehicle_state list" where
  "other_vehicle_states prov = map (\<lambda>(k, other, r). other) (other_vehicles prov)"

definition all_states :: "provider \<Rightarrow> vehicle_state list" where
  "all_states prov = my_actor_states prov @ other_vehicle_states prov"

definition add_actor_in_flow :: "env \<Rightarrow> provider \<Rightarrow> flow \<Rightarrow> error + (provider \<times> bool)" where
  "add_actor_in_flow env prov flow =
     bindE (from_flow env prov flow) (\<lambda>(prov1, new_actor).
       let new_actor_bbox = bbox new_actor True in
       if list_ex (\<lambda>(k, reserved_area). intersects env reserved_area new_actor_bbox)
            (reserved_areas prov1)
       then Inr (prov1, False)
       else if list_ex (\<lambda>(k, actor). intersects env (bbox actor False) new_actor_bbox)
                 (my_actors prov1)
       then Inr (prov1, False)
       else Inr (prov1\<lparr>my_actors :=
                         AList.update (actor_id new_actor) new_actor (my_actors prov1)\<rparr>,
                 True))"

text \<open>The body of the loop of \<open>_add_actors_for_time\<close> for the flow stored under \<open>k\<close>.\<close>

definition emit_for_flow :: "env \<Rightarrow> pyfloat \<Rightarrow> provider \<Rightarrow> string \<Rightarrow> error + provider" where
  "emit_for_flow env sim_time prov k =
     bindE (dict_get (flows prov) k) (\<lambda>flow.
       if \<not> (flow_begin flow \<le> sim_time \<and> sim_time < flow_end flow) then Inr prov
       else if (case last_added flow of
                  None \<Rightarrow> True
                | Some la \<Rightarrow> emit_period flow \<le> sim_time - la)
       then
         bindE (add_actor_in_flow env prov flow) (\<lambda>(prov1, added).
           if added then
             Inr (prov1\<lparr>flows :=
                          AList.update k (flow\<lparr>last_added := Some sim_time\<rparr>) (flows prov1)\<rparr>)
           else Inr prov1)
       else Inr prov)"

fun add_actors_loop :: "env \<Rightarrow> pyfloat \<Rightarrow> provider \<Rightarrow> string list \<Rightarrow> error + provider" where
  "add_actors_loop env sim_time prov [] = Inr prov"
| "add_actors_loop env sim_time prov (k # ks) =
     bindE (emit_for_flow env sim_time prov k) (\<lambda>prov1.
       add_actors_loop env sim_time prov1 ks)"

definition add_actors_for_time :: "env \<Rightarrow> provider \<Rightarrow> pyfloat \<Rightarrow> error + provider" where
  "add_actors_for_time env prov sim_time =
     add_actors_loop env sim_time prov (map fst (flows prov))"

text \<open>
  Phase 1 of \<open>LocalTrafficProvider.step\<close>: \<open>compute_next_state\<close> for every managed actor
  in insertion order, each call receiving \<open>self._all_states\<close> as it is at that moment.
\<close>

definition decide_one :: "env \<Rightarrow> pyfloat \<Rightarrow> provider \<Rightarrow> string \<Rightarrow> error + provider" where
  "decide_one env dt prov k =
     bindE (dict_get (my_actors prov) k) (\<lambda>actor.
     bindE (compute_next_state env prov actor dt (all_states prov)) (\<lambda>(prov', actor').
       Inr (prov'\<lparr>my_actors := AList.update k actor' (my_actors prov')\<rparr>)))"

fun decide_all :: "env \<Rightarrow> pyfloat \<Rightarrow> provider \<Rightarrow> string list \<Rightarrow> error + provider" where
  "decide_all env dt prov [] = Inr prov"
| "decide_all env dt prov (k # ks) =
     bindE (decide_one env dt prov k) (\<lambda>prov'. decide_all env dt prov' ks)"

text \<open>Phase 2: every actor commits its next state; the finished ones are collected.\<close>

fun commit_all ::
  "env \<Rightarrow> pyfloat \<Rightarrow> provider \<Rightarrow> string list \<Rightarrow> string list \<Rightarrow>
   error + (provider \<times> string list)" where
  "commit_all env dt prov dones [] = Inr (prov, dones)"
| "commit_all env dt prov dones (k # ks) =
     bindE (dict_get (my_actors prov) k) (\<lambda>actor.
     bindE (step env prov actor dt) (\<lambda>(prov', actor').
       commit_all env dt
         (prov'\<lparr>my_actors := AList.update k actor' (my_actors prov')\<rparr>)
         (if done_with_route actor' then dones @ [actor_id actor'] else dones)
         ks))"

fun remove_dones :: "provider \<Rightarrow> string list \<Rightarrow> error + provider" where
  "remove_dones prov [] = Inr prov"
| "remove_dones prov (d # ds) =
     (if map_of (my_actors prov) d = None then Inl KeyError
      else remove_dones (prov\<lparr>my_actors := AList.delete d (my_actors prov)\<rparr>) ds)"

text \<open>\<open>LocalTrafficProvider.step\<close>; the argument \<open>actions\<close> is not read.\<close>

definition provider_step ::
  "env \<Rightarrow> provider \<Rightarrow> pyfloat \<Rightarrow> pyfloat \<Rightarrow> error + (provider \<times> vehicle_state list)" where
  "provider_step env prov dt elapsed_sim_time =
     bindE (add_actors_for_time env prov elapsed_sim_time) (\<lambda>prov1.
       let prov2 = prov1\<lparr>reserved_areas :=
                           foldl (\<lambda>ra (k, other, r). AList.delete (vehicle_id other) ra)
                             (reserved_areas prov1) (other_vehicles prov1)\<rparr>;
           prov3 = prov2\<lparr>nearest_lanes_cache :=
                           foldl (\<lambda>c ovs.
                                AList.update (vehicle_id ovs)
                                  (nearest_lane (the_road_map env) (position (pose ovs))
                                     (dim_length (dimensions ovs))) c)
                             [] (all_states prov2)\<rparr>;
           prov4 = prov3\<lparr>offsets_cache := []\<rparr>
       in
       bindE (decide_all env dt prov4 (map fst (my_actors prov4))) (\<lambda>prov5.
       bindE (commit_all env dt prov5 [] (map fst (my_actors prov5))) (\<lambda>(prov6, dones).
       bindE (remove_dones prov6 dones) (\<lambda>prov7.
         Inr (prov7, my_actor_states prov7)))))"

definition teardown :: "provider \<Rightarrow> provider" where
  "teardown prov = prov\<lparr>my_actors := [], other_vehicles := [], reserved_areas := []\<rparr>"

text \<open>\<open>destroy\<close> has the body \<open>pass\<close>.\<close>

definition destroy :: "provider \<Rightarrow> provider" where
  "destroy prov = prov"

section \<open>A scenario: two consecutive one-lane roads\<close>

text \<open>
  The straight road \<open>E1\<close> (lane \<open>E1_0\<close>, \<open>x\<close> from 0 to 100) is followed by \<open>E2\<close>
  (lane \<open>E2_0\<close>, \<open>x\<close> from 100 to 200).  Lanes run along the \<open>x\<close> axis, which is
  heading 0; the lateral lane coordinate is \<open>y\<close>.  Boxes are compared without their
  rotation, all headings in the scenario being 0.
\<close>

definition rm0 :: road_map where
  "rm0 =
     \<lparr>road_by_id = (\<lambda>r. r = ''E1'' \<or> r = ''E2''),
      road_lanes = (\<lambda>r. if r = ''E1'' then [''E1_0''] else if r = ''E2'' then [''E2_0''] else []),
      road_outgoing_roads = (\<lambda>r. if r = ''E1'' then [''E2''] else []),
      lane_road = (\<lambda>l. if l = ''E1_0'' then ''E1'' else ''E2''),
      lane_index = (\<lambda>l. 0),
      lane_length = (\<lambda>l. Fin 100),
      lane_speed_limit = (\<lambda>l. Some (Fin 10)),
      composite_lane = (\<lambda>l. l),
      outgoing_lanes = (\<lambda>l. if l = ''E1_0'' then [''E2_0''] else []),
      to_lane_coord = (\<lambda>l (x, y, z). (if l = ''E1_0'' then x else x - Fin 100, y)),
      from_lane_coord = (\<lambda>l s. (if l = ''E1_0'' then s else s + Fin 100, Fin 0, Fin 0)),
      offset_along_lane = (\<lambda>l (x, y, z). if l = ''E1_0'' then x else x - Fin 100),
      vector_at_offset = (\<lambda>l s. (Fin 1, Fin 0)),
      width_at_offset = (\<lambda>l s. Fin 3),
      curvature_radius_at_offset = (\<lambda>l s k. PInf),
      nearest_lane = (\<lambda>(x, y, z) r. Some (if x < Fin 100 then ''E1_0'' else ''E2_0'')),
      nearest_lanes = (\<lambda>(x, y, z) r. [(if x < Fin 100 then ''E1_0'' else ''E2_0'', Fin 0)])\<rparr>"

definition dims0 :: dimensions where
  "dims0 = \<lparr>dim_length = Fin 4, dim_width = Fin 2, dim_height = Fin 1.5\<rparr>"

definition intersects0 :: "polygon \<Rightarrow> polygon \<Rightarrow> bool" where
  "intersects0 p q =
     (case (p, q) of
        (Rotated_box a b c d h, Rotated_box a' b' c' d' h') \<Rightarrow>
          a \<le> c' \<and> a' \<le> c \<and> b \<le> d' \<and> b' \<le> d
      | _ \<Rightarrow> False)"

definition env0 :: env where
  "env0 =
     \<lparr>the_road_map = rm0,
      vehicle_configs = (\<lambda>c. if c = ''passenger'' then Some dims0 else None),
      radians_to_vec = (\<lambda>h. case val h of
                               Finite_val r \<Rightarrow> (NpFin (cos r), NpFin (sin r))
                             | _ \<Rightarrow> (Num Np Not_a_number, Num Np Not_a_number)),
      vec_to_radians = (\<lambda>v. if v = (Fin 1, Fin 0) then Fin 0 else NaN),
      min_angles_difference_signed = (\<lambda>a b. a - b),
      mk_heading = as_py,
      intersects = intersects0,
      scale_dimensions = (\<lambda>k d. Inl TypeError),
      source_str = ''LocalTrafficProvider'',
      random_uniform = (\<lambda>k. Fin 0.5),
      random_gauss = (\<lambda>k mu sigma. mu)\<rparr>"

definition vt0 :: vtype where
  "vt0 = \<lparr>num_attr = (\<lambda>k. None),
          str_attr = (\<lambda>k. if k = ''id'' then Some ''car''
                          else if k = ''vClass'' then Some ''passenger'' else None)\<rparr>"

text \<open>
  A flow over the route \<open>E1 E2\<close>, one vehicle per second from time 0 to 900, departing
  at \<open>x = 10\<close> with speed 5 and arriving at the end of \<open>E2\<close>.
\<close>

definition flow0 :: flow where
  "flow0 =
     \<lparr>flow_id = ''f0'',
      flow_vtype = vt0,
      flow_route = [''E1'', ''E2''],
      flow_route_id = 7,
      flow_begin = Fin 0,
      flow_end = Fin 900,
      emit_period = Fin 1,
      last_added = None,
      departLane = Some 0,
      departPos = Some (PosNum (Fin 10)),
      departSpeed = Some (SpeedNum (Fin 5)),
      arrivalLane = Some 0,
      arrivalPos = Some PosMax\<rparr>"

text \<open>A state on lane \<open>E2_0\<close> at \<open>x\<close>, heading 0, with the given speed.\<close>

definition state0 :: "string \<Rightarrow> real \<Rightarrow> real \<Rightarrow> vehicle_state" where
  "state0 vid x v =
     \<lparr>vehicle_id = vid,
      pose = \<lparr>position = (Fin x, Fin 0, Fin 0), heading = Fin 0\<rparr>,
      dimensions = dims0,
      vehicle_type = ''car'',
      vehicle_config_type = ''passenger'',
      speed = Fin v,
      linear_acceleration = Some [NpFin 0, NpFin 0, NpFin 0],
      source = ''LocalTrafficProvider'',
      role = Social\<rparr>"

text \<open>
  An actor of \<open>flow0\<close> on \<open>E2\<close> (the second road of its route) at \<open>x\<close> with speed \<open>v\<close>,
  as \<open>from_flow\<close> builds it and \<open>step\<close> moves it; it has not been stepped in this lane yet.
\<close>

definition actor0 :: "string \<Rightarrow> real \<Rightarrow> real \<Rightarrow> actor" where
  "actor0 vid x v =
     \<lparr>all_vehicle_states = [],
      a_flow = flow0,
      a_vtype = vt0,
      route_ind = 1,
      done_with_route = False,
      off_route = False,
      a_route = [''E1'', ''E2''],
      a_route_id = 7,
      lane_speed = [],
      lane_windows = [],
      lane_win = None,
      target_lane_win = None,
      min_space_cush = Fin 2.5,
      speed_factor = Fin 1,
      cutting_into = None,
      in_front_after_cutin_secs = Fin 0,
      cutin_hold_secs = Fin 3,
      target_cutin_gap = Fin 6.25,
      aggressiveness = Fin 1,
      cutin_prob = Fin 0,
      a_lane = ''E2_0'',
      a_offset = Fin (x - 100),
      a_state = state0 vid x v,
      dest_lane = ''E2_0'',
      dest_offset = Fin 100,
      in_front_secs = None,
      target_speed = None,
      next_pose = None,
      next_speed = None,
      next_linear_acceleration = None\<rparr>"

text \<open>
  A provider in non-endless mode with the route table of \<open>flow0\<close> (as
  \<open>_cache_route_lengths\<close> fills it), the given flows and managed actors, and the caches
  as \<open>step\<close> sets them before Phase 1.
\<close>

definition prov0 :: "(string \<times> flow) list \<Rightarrow> (string \<times> actor) list \<Rightarrow> provider" where
  "prov0 fs actors =
     \<lparr>endless_traffic = False,
      flows = fs,
      my_actors = actors,
      other_vehicles = [],
      reserved_areas = [],
      route_lane_lengths = [(7, [((''E1_0'', 0), Fin 200), ((''E2_0'', 1), Fin 100)])],
      actors_created = 0,
      nearest_lanes_cache = map (\<lambda>(k, actor). (k, Some ''E2_0'')) actors,
      offsets_cache = [],
      rng_draws = 0\<rparr>"

text \<open>
  A lane window of \<open>E2_0\<close> with the given time left and gap, nobody behind and no
  agent gap.
\<close>

definition window0 :: "real \<Rightarrow> real \<Rightarrow> lane_window" where
  "window0 t g =
     \<lparr>lw_lane = ''E2_0'', time_left = Fin t, adj_time_left = Fin t, ttre = PInf,
      gap = Fin g, lane_coord = (Fin 50, Fin 0), agent_gap = None\<rparr>"

text \<open>
  A provider with a managed actor, a foreign vehicle and a reserved area.
\<close>

definition busy_prov :: provider where
  "busy_prov =
     (prov0 [] [(''car-1'', actor0 ''car-1'' 150 5)])
       \<lparr>other_vehicles := [(''ego'', state0 ''ego'' 120 5, None)],
        reserved_areas := [(''ego'', Host_polygon [(Fin 0, Fin 0), (Fin 5, Fin 0), (Fin 5, Fin 5)])]\<rparr>"

text \<open>
  An actor that has cut into its present lane \<open>E2_0\<close> and has been holding the
  commitment for 2.95 seconds; \<open>_in_front_secs\<close> is 0, as the round of \<open>_pick_lane\<close>
  that made the commitment left it.  A second actor drives 20 m ahead of it.
\<close>

definition cutin_actor :: actor where
  "cutin_actor =
     (actor0 ''car-1'' 150 5)
       \<lparr>cutting_into := Some (window0 10 16),
        in_front_after_cutin_secs := Fin 2.95,
        in_front_secs := Some (Fin 0)\<rparr>"

definition cutin_prov :: provider where
  "cutin_prov = prov0 [] [(''car-1'', cutin_actor), (''car-2'', actor0 ''car-2'' 170 5)]"

text \<open>
  The actor \<open>from_flow\<close> builds for \<open>flow0\<close>, and a provider with \<open>flow0\<close> and a
  reserved area over the depart position.
\<close>

definition emitted0 :: actor where
  "emitted0 = (actor0 ''car-1'' 10 5)\<lparr>route_ind := 0, a_lane := ''E1_0'', a_offset := Fin 10\<rparr>"

definition reserved_prov :: provider where
  "reserved_prov =
     (prov0 [(''f0'', flow0)] [])
       \<lparr>reserved_areas := [(''ego'', Rotated_box (Fin 5) (Fin (- 5)) (Fin 15) (Fin 5) (Fin 0))]\<rparr>"

text \<open>An actor at rest, with lane windows from an earlier tick.\<close>

definition stopped_actor :: actor where
  "stopped_actor =
     (actor0 ''car-1'' 150 0)\<lparr>target_lane_win := Some (window0 10 16),
                               lane_win := Some (window0 10 16)\<rparr>"

text \<open>
  The same actor at rest after a committed tick: its speed is the \<open>numpy.float64\<close> zero
  that \<open>speed + acceleration * dt\<close> leaves once an acceleration has come from
  \<open>np.clip\<close>.  In \<open>queue_prov\<close> a second actor stands 5 m ahead of it, which leaves a
  gap of 1 m between the two boxes.
\<close>

definition np_stopped_actor :: actor where
  "np_stopped_actor =
     (actor0 ''car-1'' 150 0)\<lparr>a_state := (state0 ''car-1'' 150 0)\<lparr>speed := NpFin 0\<rparr>\<rparr>"

text \<open>
  The actor at rest with the Python float 0 as its speed, at a position whose
  coordinates are \<open>numpy.float64\<close> scalars, as the elements of a position array are.
\<close>

definition stopped_actor_np_pos :: actor where
  "stopped_actor_np_pos =
     stopped_actor\<lparr>a_state := (a_state stopped_actor)\<lparr>pose :=
        \<lparr>position = (NpFin 150, NpFin 0, NpFin 0), heading = Fin 0\<rparr>\<rparr>\<rparr>"


section \<open>Predicates of the statements\<close>

text \<open>
  Two providers that differ at most in the offset cache and in the number of random
  draws made.
\<close>

definition caches_differ :: "provider \<Rightarrow> provider \<Rightarrow> bool" where
  "caches_differ p p' \<longleftrightarrow>
     my_actors p' = my_actors p \<and> other_vehicles p' = other_vehicles p
     \<and> route_lane_lengths p' = route_lane_lengths p
     \<and> nearest_lanes_cache p' = nearest_lanes_cache p
     \<and> flows p' = flows p \<and> reserved_areas p' = reserved_areas p
     \<and> actors_created p' = actors_created p \<and> endless_traffic p' = endless_traffic p"

text \<open>
  Two providers with the same managed actors, flows, reserved areas and foreign
  vehicles.
\<close>

definition fleet_unchanged :: "provider \<Rightarrow> provider \<Rightarrow> bool" where
  "fleet_unchanged p p' \<longleftrightarrow>
     my_actors p' = my_actors p \<and> flows p' = flows p
     \<and> reserved_areas p' = reserved_areas p \<and> other_vehicles p' = other_vehicles p"

text \<open>
  The admission condition of a new actor: its cushion-padded box intersects no reserved
  area and no managed actor's box.
\<close>

definition no_conflict :: "env \<Rightarrow> provider \<Rightarrow> actor \<Rightarrow> bool" where
  "no_conflict env prov new_actor \<longleftrightarrow>
     (\<forall>(k, area) \<in> set (reserved_areas prov). \<not> intersects env area (bbox new_actor True))
     \<and> (\<forall>(k, actor) \<in> set (my_actors prov).
           \<not> intersects env (bbox actor False) (bbox new_actor True))"




text \<open>
  The local variable \<open>path_len\<close> of \<open>_compute_lane_window\<close>, the dividend of
  \<open>path_len / self.speed\<close>, for the route table \<open>my_route_lens\<close>.
\<close>

definition lane_path_len ::
  "env \<Rightarrow> ((lane_id \<times> int) \<times> pyfloat) list \<Rightarrow> actor \<Rightarrow> lane_id \<Rightarrow> pyfloat" where
  "lane_path_len env my_route_lens a lane =
     (case map_of my_route_lens (lane, route_ind a) of
        None \<Rightarrow> lane_length (the_road_map env) lane
      | Some v \<Rightarrow> v)
     - fst (to_lane_coord (the_road_map env) lane (position (pose (a_state a))))"

section \<open>Evaluation and frame lemmas\<close>

lemma bindE_eq_Inr: "bindE m f = Inr y \<longleftrightarrow> (\<exists>x. m = Inr x \<and> f x = Inr y)"
  by (cases m) auto

lemma bindE_InrE:
  assumes "bindE m f = Inr y"
  obtains x where "m = Inr x" and "f x = Inr y"
  using assms by (cases m) auto

lemmas scen_defs = env0_def rm0_def actor0_def state0_def prov0_def dims0_def vt0_def flow0_def

lemmas float_defs = minus_fval_def py_min_def py_max_def py_eq_def np_clip_def
  np_norm_def py_truthy_def

lemmas window_defs = compute_lane_windows_def compute_lane_window_def lane_window_visit_def
  window_for_vehicle_def vehicle_ahead_def vehicle_behind_def other_vehicle_offset_def
  crossing_time_into_def exit_time_def crossing_time_at_speed_def angle_scale_def
  lw_radius_def lw_width_def theta_def dict_get_def time_to_cover_def

lemmas select_defs = pick_lane_def pick_lane_loop.simps pick_lane_visit_def keep_cutting_in_def
  consider_lane_def should_cutin_def

lemmas control_defs = compute_lane_speeds_def get_radius_def cached_lane_offset_def
  a_speed_def acceleration_def slow_for_curves_def check_speed_def angle_to_lane_def
  compute_acceleration_def time_cush_def time_severity_def space_severity_def vtype_get_def
  compute_next_state_def

lemmas provider_defs = provider_step_def add_actors_for_time_def decide_one_def step_def
  remove_dones.simps all_states_def my_actor_states_def other_vehicle_states_def actor_id_def

subsection \<open>What the decision phase leaves unchanged\<close>

lemma caches_differ_refl: "caches_differ prov prov"
  unfolding caches_differ_def by simp

lemma caches_differ_trans:
  "caches_differ p1 p2 \<Longrightarrow> caches_differ p2 p3 \<Longrightarrow> caches_differ p1 p3"
  unfolding caches_differ_def by simp

lemma cached_lane_offset_frame:
  "cached_lane_offset env prov vs l = (prov', v) \<Longrightarrow> caches_differ prov prov'"
  unfolding cached_lane_offset_def caches_differ_def
  by (auto simp: Let_def split: option.splits)

lemma get_radius_frame:
  "get_radius env prov a l = Inr (prov', r) \<Longrightarrow> caches_differ prov prov'"
  unfolding get_radius_def
  by (auto simp: Let_def bindE_eq_Inr split: prod.splits dest: cached_lane_offset_frame)

lemma lane_speeds_loop_frame:
  "lane_speeds_loop env my_radius prov a ls = Inr (prov', a') \<Longrightarrow>
     caches_differ prov prov' \<and> a_state a' = a_state a \<and> a_vtype a' = a_vtype a"
proof (induction ls arbitrary: prov a)
  case Nil
  then show ?case by (simp add: caches_differ_refl)
next
  case (Cons l ls)
  from Cons.prems obtain p1 r ratio where
    g: "get_radius env prov a l = Inr (p1, r)" and
    rest: "lane_speeds_loop env my_radius p1
             (a\<lparr>lane_speed := AList.update (lane_index (the_road_map env) l)
                   (ratio * a_speed a, ratio * acceleration a) (lane_speed a)\<rparr>) ls = Inr (prov', a')"
    by (auto simp: bindE_eq_Inr)
  from Cons.IH [OF rest] get_radius_frame [OF g] show ?case
    by (auto intro: caches_differ_trans)
qed

lemma compute_lane_speeds_frame:
  "compute_lane_speeds env prov a = Inr (prov', a') \<Longrightarrow>
     caches_differ prov prov' \<and> a_state a' = a_state a \<and> a_vtype a' = a_vtype a"
  unfolding compute_lane_speeds_def
  by (auto simp: Let_def bindE_eq_Inr dest!: lane_speeds_loop_frame get_radius_frame
      intro: caches_differ_trans)

lemma other_vehicle_offset_frame:
  "other_vehicle_offset env prov a lane my_offset path_len rl ovs ov_lane = Some (prov', off)
   \<Longrightarrow> caches_differ prov prov'"
  unfolding other_vehicle_offset_def
  by (auto simp: Let_def split: if_splits option.splits prod.splits
      dest: cached_lane_offset_frame)

lemma lane_window_visit_frame:
  "lane_window_visit env a lane my_offset path_len rl prov st ovs = Inr (prov', st', brk)
   \<Longrightarrow> caches_differ prov prov'"
  unfolding lane_window_visit_def
  by (auto simp: caches_differ_refl elim!: bindE_InrE
      split: if_splits option.splits prod.splits
      dest: other_vehicle_offset_frame)

lemma lane_window_loop_frame:
  "lane_window_loop env a lane my_offset path_len rl prov st sts = Inr (prov', st')
   \<Longrightarrow> caches_differ prov prov'"
proof (induction sts arbitrary: prov st)
  case Nil
  then show ?case by (simp add: caches_differ_refl)
next
  case (Cons ovs sts)
  from Cons.prems obtain p1 s1 brk where
    v: "lane_window_visit env a lane my_offset path_len rl prov st ovs = Inr (p1, s1, brk)"
    and r: "(if brk then Inr (p1, s1)
             else lane_window_loop env a lane my_offset path_len rl p1 s1 sts) = Inr (prov', st')"
    by (auto simp: bindE_eq_Inr)
  show ?case
  proof (cases brk)
    case True
    with r lane_window_visit_frame [OF v] show ?thesis by simp
  next
    case False
    with r have "lane_window_loop env a lane my_offset path_len rl p1 s1 sts = Inr (prov', st')"
      by simp
    from Cons.IH [OF this] lane_window_visit_frame [OF v] show ?thesis
      by (rule caches_differ_trans [rotated])
  qed
qed

lemma compute_lane_window_frame:
  "compute_lane_window env prov a lane = Inr (prov', a') \<Longrightarrow>
     caches_differ prov prov' \<and> a_state a' = a_state a \<and> a_vtype a' = a_vtype a"
  unfolding compute_lane_window_def
  by (auto simp: Let_def bindE_eq_Inr dest: lane_window_loop_frame)

lemma compute_windows_of_lanes_frame:
  "compute_windows_of_lanes env prov a lanes = Inr (prov', a') \<Longrightarrow>
     caches_differ prov prov' \<and> a_state a' = a_state a \<and> a_vtype a' = a_vtype a"
proof (induction lanes arbitrary: prov a)
  case Nil
  then show ?case by (simp add: caches_differ_refl)
next
  case (Cons l ls)
  from Cons.prems obtain p1 a1 where
    w: "compute_lane_window env prov a l = Inr (p1, a1)" and
    r: "compute_windows_of_lanes env p1 a1 ls = Inr (prov', a')"
    by (auto simp: bindE_eq_Inr)
  from Cons.IH [OF r] compute_lane_window_frame [OF w] show ?case
    by (auto intro: caches_differ_trans)
qed

lemma adjust_time_left_frame:
  "adjust_time_left env a idxs = Inr a' \<Longrightarrow> a_state a' = a_state a \<and> a_vtype a' = a_vtype a"
proof (induction idxs arbitrary: a)
  case Nil
  then show ?case by simp
next
  case (Cons i idxs)
  from Cons.prems obtain ct lw where
    "adjust_time_left env
       (a\<lparr>lane_windows := AList.update i (lw\<lparr>adj_time_left := adj_time_left lw - ct\<rparr>)
             (lane_windows a)\<rparr>) idxs = Inr a'"
    by (auto simp: bindE_eq_Inr)
  from Cons.IH [OF this] show ?case by simp
qed

lemma compute_lane_windows_frame:
  "compute_lane_windows env prov a = Inr (prov', a') \<Longrightarrow>
     caches_differ prov prov' \<and> a_state a' = a_state a \<and> a_vtype a' = a_vtype a"
  unfolding compute_lane_windows_def
  by (auto simp: Let_def bindE_eq_Inr
      dest!: compute_windows_of_lanes_frame adjust_time_left_frame)

lemma should_cutin_frame:
  "should_cutin env prov a lw = Inr (prov', b) \<Longrightarrow> caches_differ prov prov'"
  unfolding should_cutin_def
  by (auto simp: Let_def caches_differ_def elim!: bindE_InrE split: if_splits option.splits)

lemma keep_cutting_in_frame:
  "keep_cutting_in env dt a best = Inr (a', best', brk) \<Longrightarrow>
     a_state a' = a_state a \<and> a_vtype a' = a_vtype a"
  unfolding keep_cutting_in_def
  by (auto simp: Let_def elim!: bindE_InrE split: if_splits option.splits)

lemma consider_lane_frame:
  "consider_lane env prov a best lw idx = Inr (prov', a', best') \<Longrightarrow>
     caches_differ prov prov' \<and> a_state a' = a_state a \<and> a_vtype a' = a_vtype a"
  unfolding consider_lane_def
  by (auto simp: caches_differ_refl elim!: bindE_InrE split: if_splits
      dest: should_cutin_frame)

lemma pick_lane_visit_frame:
  "pick_lane_visit env dt prov a best idx = Inr (prov', a', best', brk) \<Longrightarrow>
     caches_differ prov prov' \<and> a_state a' = a_state a \<and> a_vtype a' = a_vtype a"
  unfolding pick_lane_visit_def
  by (auto simp: caches_differ_refl elim!: bindE_InrE
      split: if_splits
      dest!: keep_cutting_in_frame consider_lane_frame)

lemma pick_lane_loop_frame:
  "pick_lane_loop env dt n my_idx idx prov a best = Inr (prov', a', best') \<Longrightarrow>
     caches_differ prov prov' \<and> a_state a' = a_state a \<and> a_vtype a' = a_vtype a"
proof (induction env dt n my_idx idx prov a best rule: pick_lane_loop.induct)
  case (1 env dt n my_idx idx prov a best_lw)
  show ?case
  proof (cases "0 \<le> idx \<and> idx < n \<and> 0 \<le> my_idx \<and> my_idx < n")
    case False
    with "1.prems" show ?thesis
      by (subst (asm) pick_lane_loop.simps) (simp add: caches_differ_refl)
  next
    case True
    with "1.prems" obtain p1 a1 b1 brk where
      v: "pick_lane_visit env dt prov a best_lw idx = Inr (p1, a1, b1, brk)" and
      r: "(if brk then Inr (p1, a1, b1)
           else if (idx + 1) mod n = my_idx then Inr (p1, a1, b1)
           else pick_lane_loop env dt n my_idx ((idx + 1) mod n) p1 a1 b1) = Inr (prov', a', best')"
      by (subst (asm) pick_lane_loop.simps) (auto elim!: bindE_InrE)
    note vf = pick_lane_visit_frame [OF v]
    show ?thesis
    proof (cases "brk \<or> (idx + 1) mod n = my_idx")
      case True
      with r vf show ?thesis by (auto split: if_splits)
    next
      case False
      with r have rec: "pick_lane_loop env dt n my_idx ((idx + 1) mod n) p1 a1 b1
                         = Inr (prov', a', best')"
        by simp
      from False have nb: "\<not> brk" and ne: "(idx + 1) mod n \<noteq> my_idx" by simp_all
      have "caches_differ p1 prov' \<and> a_state a' = a_state a1 \<and> a_vtype a' = a_vtype a1"
        using "1.IH" True v nb ne rec by simp
      with vf show ?thesis
        by (auto intro: caches_differ_trans)
    qed
  qed
qed

lemma pick_lane_frame:
  "pick_lane env dt prov a = Inr (prov', a') \<Longrightarrow>
     caches_differ prov prov' \<and> a_state a' = a_state a \<and> a_vtype a' = a_vtype a"
  unfolding pick_lane_def
  by (auto simp: Let_def elim!: bindE_InrE
      dest!: compute_lane_windows_frame pick_lane_loop_frame intro: caches_differ_trans)

lemma slow_for_curves_frame:
  "slow_for_curves env a = Inr a' \<Longrightarrow> a_state a' = a_state a \<and> a_vtype a' = a_vtype a"
  unfolding slow_for_curves_def
  by (auto simp: Let_def elim!: bindE_InrE split: option.splits)

lemma check_speed_frame:
  "check_speed env a = Inr a' \<Longrightarrow> a_state a' = a_state a \<and> a_vtype a' = a_vtype a"
  unfolding check_speed_def
  by (auto simp: Let_def elim!: bindE_InrE split: option.splits if_splits
      dest!: slow_for_curves_frame)

lemma compute_next_state_frame:
  "compute_next_state env prov a dt sts = Inr (prov', a') \<Longrightarrow>
     caches_differ prov prov' \<and> a_state a' = a_state a \<and> a_vtype a' = a_vtype a"
  unfolding compute_next_state_def
  by (auto simp: Let_def elim!: bindE_InrE split: prod.splits
      dest!: compute_lane_speeds_frame pick_lane_frame check_speed_frame
      intro: caches_differ_trans)

lemma map_update_same_state:
  "map_of xs k = Some a \<Longrightarrow> a_state a' = a_state a \<Longrightarrow>
   map (\<lambda>(k, actor). a_state actor) (AList.update k a' xs) = map (\<lambda>(k, actor). a_state actor) xs
   \<and> map fst (AList.update k a' xs) = map fst xs"
  by (induction xs) (auto split: if_splits)

lemma decide_one_frame:
  assumes "decide_one env dt prov k = Inr prov'"
  shows "all_states prov' = all_states prov \<and> map fst (my_actors prov') = map fst (my_actors prov)"
proof -
  from assms obtain actor p1 actor' where
    g: "dict_get (my_actors prov) k = Inr actor" and
    c: "compute_next_state env prov actor dt (all_states prov) = Inr (p1, actor')" and
    p: "prov' = p1\<lparr>my_actors := AList.update k actor' (my_actors p1)\<rparr>"
    unfolding decide_one_def by (auto elim!: bindE_InrE)
  from g have m: "map_of (my_actors prov) k = Some actor"
    by (simp add: dict_get_def split: option.splits)
  from compute_next_state_frame [OF c] have
    cd: "caches_differ prov p1" and st: "a_state actor' = a_state actor"
    by simp_all
  from cd have eq: "my_actors p1 = my_actors prov" "other_vehicles p1 = other_vehicles prov"
    by (simp_all add: caches_differ_def)
  from map_update_same_state [OF m st] p eq show ?thesis
    by (simp add: all_states_def my_actor_states_def other_vehicle_states_def)
qed

lemma decide_all_frame:
  "decide_all env dt prov ks = Inr prov' \<Longrightarrow>
   all_states prov' = all_states prov \<and> map fst (my_actors prov') = map fst (my_actors prov)"
proof (induction ks arbitrary: prov)
  case Nil
  then show ?case by simp
next
  case (Cons k ks)
  from Cons.prems obtain p1 where
    o: "decide_one env dt prov k = Inr p1" and r: "decide_all env dt p1 ks = Inr prov'"
    by (auto elim!: bindE_InrE)
  from Cons.IH [OF r] decide_one_frame [OF o] show ?case by simp
qed

lemma decide_all_append:
  "decide_all env dt prov (ks1 @ ks2) = bindE (decide_all env dt prov ks1) (\<lambda>p. decide_all env dt p ks2)"
proof (induction ks1 arbitrary: prov)
  case Nil
  show ?case by simp
next
  case (Cons k ks1)
  show ?case
    by (cases "decide_one env dt prov k") (simp_all add: Cons.IH)
qed
lemma phase1_snapshot:
  assumes "decide_all env dt prov (ks1 @ k # ks2) = Inr prov''"
  shows "\<exists>prov1 actor prov2 actor'.
           decide_all env dt prov ks1 = Inr prov1
         \<and> all_states prov1 = all_states prov
         \<and> dict_get (my_actors prov1) k = Inr actor
         \<and> compute_next_state env prov1 actor dt (all_states prov) = Inr (prov2, actor')
         \<and> a_state actor' = a_state actor
         \<and> all_states prov'' = all_states prov"
proof -
  from assms obtain prov1 where
    d1: "decide_all env dt prov ks1 = Inr prov1" and
    d2: "decide_all env dt prov1 (k # ks2) = Inr prov''"
    by (auto simp: decide_all_append elim!: bindE_InrE)
  from decide_all_frame [OF d1] have s1: "all_states prov1 = all_states prov" by simp
  from d2 obtain p2 where o: "decide_one env dt prov1 k = Inr p2"
    by (auto elim!: bindE_InrE)
  then obtain actor prov2 actor' where
    g: "dict_get (my_actors prov1) k = Inr actor" and
    c: "compute_next_state env prov1 actor dt (all_states prov1) = Inr (prov2, actor')"
    unfolding decide_one_def by (auto elim!: bindE_InrE)
  from compute_next_state_frame [OF c] have "a_state actor' = a_state actor" by simp
  moreover from decide_all_frame [OF assms] have "all_states prov'' = all_states prov" by simp
  ultimately show ?thesis
    using d1 s1 g c by auto
qed

lemma step_commits:
  assumes "step env prov a dt = Inr (prov', a')" and "\<not> endless_traffic prov"
  shows "next_pose a = Some (pose (a_state a')) \<and> next_speed a = Some (speed (a_state a'))
         \<and> next_linear_acceleration a = linear_acceleration (a_state a') \<and> prov' = prov"
  using assms unfolding step_def
  by (auto simp: Let_def split: option.splits prod.splits if_splits)

subsection \<open>Bounds on the acceleration\<close>














subsection \<open>Division by a zero speed\<close>

lemma bindE_eq_Inl: "bindE m f = Inl e \<longleftrightarrow> m = Inl e \<or> (\<exists>x. m = Inr x \<and> f x = Inl e)"
  by (cases m) auto

lemma py_div_raises:
  "py_div x y = Inl e \<longleftrightarrow>
     e = ZeroDivisionError \<and> kind_of x = Py \<and> kind_of y = Py \<and> val y = Finite_val 0"
  by (cases x; cases y) auto

lemma py_eq_zero: "py_eq x (Fin 0) \<longleftrightarrow> val x = Finite_val 0"
  by (cases x) (auto simp: py_eq_def)

lemma abs_small: "\<not> \<bar>x\<bar> < Fin 1000000000 \<Longrightarrow> val x \<noteq> Finite_val 0"
  by (cases x) auto

lemma py_sqrt_raises: "py_sqrt x = Inl e \<Longrightarrow> e = ValueError"
  by (cases x; cases "val x") (auto split: if_splits)

lemma time_to_cover_no_zero_division:
  "time_to_cover d s acc \<noteq> Inl ZeroDivisionError"
proof (cases "py_eq d (Fin 0)")
  case True
  then show ?thesis by (simp add: time_to_cover_def)
next
  case nz: False
  show ?thesis
  proof (cases "\<bar>acc\<bar> < Fin 1000000000")
    case True
    with nz show ?thesis
      by (auto simp: time_to_cover_def bindE_eq_Inl py_div_raises py_eq_zero)
  next
    case False
    from abs_small [OF False] nz False show ?thesis
      by (auto simp: time_to_cover_def Let_def bindE_eq_Inl py_div_raises
          dest: py_sqrt_raises)
  qed
qed

lemma dict_get_raises: "dict_get d k = Inl e \<Longrightarrow> e = KeyError"
  by (auto simp: dict_get_def split: option.splits)

lemma vehicle_ahead_no_zero_division:
  "vehicle_ahead a st mf ob sd ad \<noteq> Inl ZeroDivisionError"
  using time_to_cover_no_zero_division
  by (auto simp: vehicle_ahead_def Let_def bindE_eq_Inl)

lemma vehicle_behind_no_zero_division:
  "vehicle_behind a st mb off sd ad r \<noteq> Inl ZeroDivisionError"
  using time_to_cover_no_zero_division
  by (auto simp: vehicle_behind_def Let_def bindE_eq_Inl)

lemma window_for_vehicle_no_zero_division:
  "window_for_vehicle env a lane my_offset st ovs ov_offset \<noteq> Inl ZeroDivisionError"
  using vehicle_ahead_no_zero_division vehicle_behind_no_zero_division
  by (auto simp: window_for_vehicle_def Let_def bindE_eq_Inl split: prod.splits if_splits
      dest: dict_get_raises)

lemma lane_window_visit_no_zero_division:
  "lane_window_visit env a lane my_offset pl t prov st ovs \<noteq> Inl ZeroDivisionError"
  using window_for_vehicle_no_zero_division
  by (auto simp: lane_window_visit_def bindE_eq_Inl split: option.splits prod.splits
      dest: dict_get_raises)

lemma lane_window_loop_no_zero_division:
  "lane_window_loop env a lane my_offset pl t prov st sts \<noteq> Inl ZeroDivisionError"
proof (induction sts arbitrary: prov st)
  case Nil
  then show ?case by simp
next
  case (Cons ovs rest)
  then show ?case
    using lane_window_visit_no_zero_division
    by (auto simp: bindE_eq_Inl split: prod.splits)
qed

lemma compute_lane_window_np_speed:
  assumes "kind_of (a_speed a) = Np"
  shows "compute_lane_window env prov a lane \<noteq> Inl ZeroDivisionError"
  using assms lane_window_loop_no_zero_division
  by (auto simp: compute_lane_window_def Let_def bindE_eq_Inl py_div_raises
      split: prod.splits dest: dict_get_raises)

lemma compute_lane_window_py_zero:
  assumes "a_speed a = Fin 0"
    and "dict_get (route_lane_lengths prov) (a_route_id a) = Inr t"
    and "kind_of (lane_path_len env t a lane) = Py"
  shows "compute_lane_window env prov a lane = Inl ZeroDivisionError"
proof -
  obtain v where "lane_path_len env t a lane = Num Py v"
    using assms(3) by (cases "lane_path_len env t a lane") simp
  then show ?thesis
    using assms(1,2) by (simp add: compute_lane_window_def lane_path_len_def Let_def)
qed

lemma time_cush_py_zero:
  assumes "kind_of (gap tlw) = Py \<or> kind_of (gap lw) = Py"
  shows "time_cush tlw lw (Fin 0) = Inl ZeroDivisionError"
  using assms by (cases "gap tlw"; cases "gap lw") (auto simp: time_cush_def)

lemma time_cush_np_total:
  assumes "kind_of spd = Np"
  shows "\<exists>tc. time_cush tlw lw spd = Inr tc"
  using assms by (cases "gap tlw"; cases "gap lw"; cases spd) (auto simp: time_cush_def)

lemma lane_speeds_loop_fields:
  "lane_speeds_loop env my_radius prov a ls = Inr (prov', a') \<Longrightarrow>
     a_lane a' = a_lane a \<and> a_route_id a' = a_route_id a \<and> route_ind a' = route_ind a"
proof (induction ls arbitrary: prov a)
  case Nil
  then show ?case by simp
next
  case (Cons l ls)
  from Cons.prems obtain p1 ratio where
    r: "lane_speeds_loop env my_radius p1
          (a\<lparr>lane_speed := AList.update (lane_index (the_road_map env) l)
                (ratio * a_speed a, ratio * acceleration a) (lane_speed a)\<rparr>) ls = Inr (prov', a')"
    by (auto elim!: bindE_InrE split: prod.splits)
  from Cons.IH [OF r] show ?case by simp
qed

lemma compute_lane_speeds_fields:
  "compute_lane_speeds env prov a = Inr (prov', a') \<Longrightarrow>
     a_lane a' = a_lane a \<and> a_route_id a' = a_route_id a \<and> route_ind a' = route_ind a"
  unfolding compute_lane_speeds_def
  by (auto simp: Let_def elim!: bindE_InrE split: prod.splits dest!: lane_speeds_loop_fields)

lemma compute_next_state_py_zero:
  assumes s: "speed (a_state a) = Fin 0"
    and k: "\<forall>lane \<in> set (road_lanes (the_road_map env) (lane_road (the_road_map env) (a_lane a))).
              \<forall>t. dict_get (route_lane_lengths prov) (a_route_id a) = Inr t
                \<longrightarrow> kind_of (lane_path_len env t a lane) = Py"
  shows "\<exists>e. compute_next_state env prov a dt sts = Inl e"
proof (cases "compute_lane_speeds env prov (a\<lparr>all_vehicle_states := sts\<rparr>)")
  case (Inl e)
  then show ?thesis by (simp add: compute_next_state_def)
next
  case (Inr r)
  obtain p1 a1 where r: "r = (p1, a1)" by (cases r)
  note c = Inr [unfolded r]
  from compute_lane_speeds_frame [OF c] compute_lane_speeds_fields [OF c] s
  have f: "a_speed a1 = Fin 0" "a_state a1 = a_state a" "a_lane a1 = a_lane a"
    "a_route_id a1 = a_route_id a" "route_ind a1 = route_ind a"
    "route_lane_lengths p1 = route_lane_lengths prov"
    by (simp_all add: a_speed_def caches_differ_def)
  have "\<exists>e. compute_lane_windows env p1 a1 = Inl e
        \<or> compute_lane_windows env p1 a1 = Inr (p1, a1\<lparr>lane_windows := []\<rparr>)"
  proof (cases "road_lanes (the_road_map env) (lane_road (the_road_map env) (a_lane a1))")
    case Nil
    then show ?thesis by (simp add: compute_lane_windows_def Let_def)
  next
    case (Cons l ls)
    let ?b = "a1\<lparr>lane_windows := []\<rparr>"
    have "\<exists>e. compute_lane_window env p1 ?b l = Inl e"
    proof (cases "dict_get (route_lane_lengths p1) (a_route_id ?b)")
      case (Inl e)
      then show ?thesis by (simp add: compute_lane_window_def Let_def)
    next
      case (Inr t)
      have "lane_path_len env t ?b l = lane_path_len env t a l"
        using f by (simp add: lane_path_len_def)
      moreover have "kind_of (lane_path_len env t a l) = Py"
        using k Cons Inr f by simp
      ultimately have "kind_of (lane_path_len env t ?b l) = Py" by simp
      moreover have "a_speed ?b = Fin 0" using f by (simp add: a_speed_def)
      ultimately show ?thesis
        using compute_lane_window_py_zero [of ?b p1 t env l] Inr by simp
    qed
    with Cons show ?thesis by (auto simp: compute_lane_windows_def Let_def)
  qed
  then have "\<exists>e. pick_lane env dt p1 a1 = Inl e"
    by (auto simp: pick_lane_def Let_def dict_get_def)
  with Inr r show ?thesis
    by (auto simp: compute_next_state_def)
qed

subsection \<open>Building an actor leaves the fleet unchanged\<close>

lemma init_actor_frame:
  "init_actor env prov flow = Inr (p1, b) \<Longrightarrow> fleet_unchanged prov p1"
  unfolding init_actor_def fleet_unchanged_def
  by (auto simp: Let_def split: if_splits)

lemma resolve_flow_pos_frame:
  "resolve_flow_pos env prov route flow da dims = Inr (p1, l, off) \<Longrightarrow> fleet_unchanged prov p1"
  unfolding resolve_flow_pos_def fleet_unchanged_def
  by (auto simp: Let_def elim!: bindE_InrE
      split: if_splits option.splits pos_token.splits dims_arg.splits)

lemma resolve_flow_speed_frame:
  "resolve_flow_speed env prov vt lane flow = Inr (p1, v) \<Longrightarrow> fleet_unchanged prov p1"
  unfolding resolve_flow_speed_def fleet_unchanged_def
  by (auto simp: Let_def split: if_splits option.splits speed_token.splits)

lemma fleet_unchanged_trans:
  "fleet_unchanged p1 p2 \<Longrightarrow> fleet_unchanged p2 p3 \<Longrightarrow> fleet_unchanged p1 p3"
  by (simp add: fleet_unchanged_def)

lemma from_flow_frame:
  assumes "from_flow env prov flow = Inr (p4, new_actor)"
  shows "fleet_unchanged prov p4"
proof -
  from assms obtain vclass where vc: "str_attr (flow_vtype flow) ''vClass'' = Some vclass"
    by (cases "str_attr (flow_vtype flow) ''vClass''") (simp_all add: from_flow_def)
  from assms vc obtain dims where dm: "vehicle_configs env vclass = Some dims"
    by (cases "vehicle_configs env vclass") (simp_all add: from_flow_def)
  from assms vc dm obtain p1 b where i: "init_actor env prov flow = Inr (p1, b)"
    by (cases "init_actor env prov flow") (auto simp: from_flow_def)
  from assms vc dm i obtain p2 l off where
    r1: "resolve_flow_pos env p1 (a_route b) flow Depart (Dims_object dims) = Inr (p2, l, off)"
    by (cases "resolve_flow_pos env p1 (a_route b) flow Depart (Dims_object dims)")
      (auto simp: from_flow_def)
  from assms vc dm i r1 obtain p3 v where
    r2: "resolve_flow_speed env p2 (a_vtype b) l flow = Inr (p3, v)"
    by (cases "resolve_flow_speed env p2 (a_vtype b) l flow")
      (auto simp: from_flow_def Let_def)
  from assms vc dm i r1 r2 obtain vt_id where vi: "str_attr (a_vtype b) ''id'' = Some vt_id"
    by (cases "str_attr (a_vtype b) ''id''") (simp_all add: from_flow_def Let_def)
  from assms vc dm i r1 r2 vi obtain dl doff where
    r3: "resolve_flow_pos env p3 (a_route b) flow Arrival (Dims_object dims) = Inr (p4, dl, doff)"
    by (cases "resolve_flow_pos env p3 (a_route b) flow Arrival (Dims_object dims)")
      (auto simp: from_flow_def Let_def)
  from init_actor_frame [OF i] resolve_flow_pos_frame [OF r1] resolve_flow_speed_frame [OF r2]
    resolve_flow_pos_frame [OF r3]
  show ?thesis
    by (blast intro: fleet_unchanged_trans)
qed

lemma list_ex_pairs: "list_ex (\<lambda>(k, v). P v) xs \<longleftrightarrow> \<not> (\<forall>(k, v) \<in> set xs. \<not> P v)"
  by (auto simp: list_ex_iff)

lemma from_flow_scenario:
  "from_flow env0 (prov0 [(''f0'', flow0)] []) flow0
     = Inr ((prov0 [(''f0'', flow0)] [])\<lparr>actors_created := 1, rng_draws := 1\<rparr>, emitted0)"
  by (simp add: from_flow_def init_actor_def resolve_flow_pos_def resolve_flow_speed_def
      vtype_get_def string_of_nat.simps emitted0_def actor_init.defs actor.defs
      float_defs scen_defs Let_def)

lemma from_flow_reserved:
  "from_flow env0 reserved_prov flow0
     = Inr (reserved_prov\<lparr>actors_created := 1, rng_draws := 1\<rparr>, emitted0)"
  by (simp add: from_flow_def init_actor_def resolve_flow_pos_def resolve_flow_speed_def
      vtype_get_def string_of_nat.simps emitted0_def actor_init.defs actor.defs
      reserved_prov_def float_defs scen_defs Let_def)

lemma keep_cutting_in_holds:
  assumes "cutting_into a = Some ci" and "lw_lane ci = a_lane a"
    and "in_front_secs a = Some (Fin 0)" and "cutin_hold_secs a = Fin 3"
  shows "keep_cutting_in env dt a best_lw
         = Inr (a\<lparr>in_front_after_cutin_secs := in_front_after_cutin_secs a + dt\<rparr>, ci, True)"
  using assms by (simp add: keep_cutting_in_def crossing_time_into_def Let_def)

section \<open>Properties of the kinematic helpers\<close>

text \<open>
  C1.  The kinematic identities of scenario S1, evaluated on the code:
  \<open>time_to_cover(10, 5, 0)\<close> is 2, \<open>time_to_cover(10, 0, 0)\<close> is \<open>+inf\<close> and
  \<open>distance_covered(2, 5, 1)\<close> is 12, but \<open>time_to_cover(10, 0, 2)\<close> is \<open>+inf\<close> and
  not \<open>sqrt(10)\<close>: the test \<open>abs(acc) < 1e9\<close> sends every acceleration of magnitude
  below \<open>10^9\<close> to the constant-speed branch, so the quadratic branch is not reached.
\<close>

theorem C1_kinematic_identities_on_code:
  "time_to_cover (Fin 10) (Fin 5) (Fin 0) = Inr (Fin 2)
   \<and> time_to_cover (Fin 10) (Fin 0) (Fin 2) = Inr PInf
   \<and> time_to_cover (Fin 10) (Fin 0) (Fin 2) \<noteq> Inr (Fin (sqrt 10))
   \<and> time_to_cover (Fin 10) (Fin 0) (Fin 0) = Inr PInf
   \<and> distance_covered (Fin 2) (Fin 5) (Fin 1) = Fin 12"
  by (simp add: time_to_cover_def distance_covered_def py_eq_def)

text \<open>
  C8, as stated, at a negative distance: \<open>time_to_cover(-1, 1, 0)\<close> is \<open>+inf\<close>, not
  \<open>-1/1\<close>, because a negative quotient is replaced by \<open>math.inf\<close>.
\<close>

theorem C8_negative_dist_counterexample:
  "time_to_cover (Fin (- 1)) (Fin 1) (Fin 0) = Inr PInf
   \<and> time_to_cover (Fin (- 1)) (Fin 1) (Fin 0) \<noteq> Inr (Fin (- 1 / 1))"
  by (simp add: time_to_cover_def py_eq_def)

text \<open>
  C8, amended.  For all real inputs: \<open>time_to_cover(0, s, a) = 0\<close>;
  \<open>time_to_cover(d, 0, 0) = +inf\<close> for \<open>d > 0\<close>; \<open>time_to_cover(d, s, 0) = d / s\<close> for
  every \<open>d \<ge> 0\<close> and \<open>s > 0\<close>; and for fixed \<open>d > 0\<close> and \<open>acc = 0\<close> the result is
  monotone non-increasing in the speed.
\<close>

theorem C8_time_to_cover_laws:
  fixes d s a s1 s2 :: real
  shows "time_to_cover (Fin 0) (Fin s) (Fin a) = Inr (Fin 0)
    \<and> (0 < d \<longrightarrow> time_to_cover (Fin d) (Fin 0) (Fin 0) = Inr PInf)
    \<and> (0 \<le> d \<and> 0 < s \<longrightarrow> time_to_cover (Fin d) (Fin s) (Fin 0) = Inr (Fin (d / s)))
    \<and> (0 < d \<and> s1 \<le> s2 \<longrightarrow>
         (\<exists>t1 t2. time_to_cover (Fin d) (Fin s1) (Fin 0) = Inr t1
                \<and> time_to_cover (Fin d) (Fin s2) (Fin 0) = Inr t2 \<and> t2 \<le> t1))"
proof -
  have zero: "time_to_cover (Fin 0) (Fin s) (Fin a) = Inr (Fin 0)"
    by (simp add: time_to_cover_def py_eq_def)
  have still: "time_to_cover (Fin d) (Fin 0) (Fin 0) = Inr PInf" if "0 < d"
    using that by (simp add: time_to_cover_def py_eq_def)
  have quot: "time_to_cover (Fin d) (Fin s) (Fin 0) = Inr (Fin (d / s))" if "0 \<le> d" "0 < s"
    using that by (simp add: time_to_cover_def py_eq_def)
  have mono: "\<exists>t1 t2. time_to_cover (Fin d) (Fin s1) (Fin 0) = Inr t1
                \<and> time_to_cover (Fin d) (Fin s2) (Fin 0) = Inr t2 \<and> t2 \<le> t1"
    if d: "0 < d" and le: "s1 \<le> s2"
  proof -
    have ttc: "time_to_cover (Fin d) (Fin x) (Fin 0)
               = Inr (if 0 < x then Fin (d / x) else PInf)" for x
      using d by (auto simp: time_to_cover_def py_eq_def divide_less_0_iff
          zero_le_divide_iff not_le not_less)
    have "(if 0 < s2 then Fin (d / s2) else PInf) \<le> (if 0 < s1 then Fin (d / s1) else PInf)"
      using d le by (auto simp: frac_le)
    then show ?thesis
      using ttc by simp
  qed
  from zero still quot mono show ?thesis
    by blast
qed

theorem C8_time_to_cover_laws_witness:
  "time_to_cover (Fin 0) (Fin 3) (Fin 1) = Inr (Fin 0)
   \<and> time_to_cover (Fin 6) (Fin 0) (Fin 0) = Inr PInf
   \<and> time_to_cover (Fin 6) (Fin 3) (Fin 0) = Inr (Fin (6 / 3))
   \<and> (\<exists>t1 t2. time_to_cover (Fin 6) (Fin 2) (Fin 0) = Inr t1
            \<and> time_to_cover (Fin 6) (Fin 3) (Fin 0) = Inr t2 \<and> t2 \<le> t1)"
proof -
  have "(0::real) < 6" and "(0::real) \<le> 6 \<and> (0::real) < 3" and "(0::real) < 6 \<and> (2::real) \<le> 3"
    by simp_all
  with C8_time_to_cover_laws [where s = 3 and a = 1 and d = 6 and ?s1.0 = 2 and ?s2.0 = 3]
  show ?thesis
    by (metis divide_self_if)
qed

section \<open>Properties of the provider and its actors\<close>

text \<open>
  C2.  Phase 1 of a tick (\<open>compute_next_state\<close> for the managed actors in insertion
  order) changes no vehicle state.  When the phase comes to the actor stored under \<open>k\<close>,
  after the actors \<open>ks1\<close>, the states of all vehicles are those the phase started with,
  that actor decides on exactly these, its own state is unchanged by its decision, and
  so are all states at the end of the phase.  The commit phase is where the state
  changes: \<open>step\<close> makes the pre-computed pose, speed and acceleration the actor's state
  (stated where the committed state is not replaced by a teleport, which only endless
  traffic does).
\<close>

theorem C2_phase1_leaves_states:
  "(decide_all env dt prov (ks1 @ k # ks2) = Inr prov'' \<longrightarrow>
      (\<exists>prov1 actor prov2 actor'.
           decide_all env dt prov ks1 = Inr prov1
         \<and> all_states prov1 = all_states prov
         \<and> dict_get (my_actors prov1) k = Inr actor
         \<and> compute_next_state env prov1 actor dt (all_states prov) = Inr (prov2, actor')
         \<and> a_state actor' = a_state actor
         \<and> all_states prov'' = all_states prov))
   \<and> (step env p a dt = Inr (p', a') \<and> \<not> endless_traffic p \<longrightarrow>
         next_pose a = Some (pose (a_state a'))
       \<and> next_speed a = Some (speed (a_state a'))
       \<and> next_linear_acceleration a = linear_acceleration (a_state a'))"
  using phase1_snapshot [of env dt prov ks1 k ks2 prov''] step_commits [of env p a dt p' a']
  by blast

text \<open>
  Witness of C2: one tick of the scenario with an actor at \<open>x = 150\<close> driving 5 m/s.
\<close>

theorem C2_phase1_leaves_states_witness:
  "\<exists>prov'' a1 p' a2.
      decide_all env0 (Fin 0.1) (prov0 [] [(''car-1'', actor0 ''car-1'' 150 5)])
        ([] @ ''car-1'' # []) = Inr prov''
    \<and> all_states prov'' = all_states (prov0 [] [(''car-1'', actor0 ''car-1'' 150 5)])
    \<and> dict_get (my_actors prov'') ''car-1'' = Inr a1
    \<and> step env0 prov'' a1 (Fin 0.1) = Inr (p', a2)
    \<and> \<not> endless_traffic prov''
    \<and> next_pose a1 = Some (pose (a_state a2))
    \<and> next_speed a1 = Some (speed (a_state a2))
    \<and> next_linear_acceleration a1 = linear_acceleration (a_state a2)"
proof -
  obtain prov'' where
    d: "decide_all env0 (Fin 0.1) (prov0 [] [(''car-1'', actor0 ''car-1'' 150 5)])
          ([] @ ''car-1'' # []) = Inr prov''"
    by (simp add: provider_defs control_defs select_defs window_defs float_defs scen_defs Let_def)
  then obtain a1 where g: "dict_get (my_actors prov'') ''car-1'' = Inr a1"
    by (auto simp add: provider_defs control_defs select_defs window_defs float_defs
        scen_defs Let_def)
  from d g obtain p' a2 where
    s: "step env0 prov'' a1 (Fin 0.1) = Inr (p', a2)" and e: "\<not> endless_traffic prov''"
    by (auto simp add: provider_defs control_defs select_defs window_defs float_defs
        scen_defs Let_def)
  from C2_phase1_leaves_states
    [of env0 "Fin 0.1" "prov0 [] [(''car-1'', actor0 ''car-1'' 150 5)]" "[]" "''car-1''" "[]"
      prov'' prov'' a1 p' a2]
    d g s e
  show ?thesis by blast
qed




text \<open>
  C4, as stated, fails at its own inputs: with speed 20, \<open>target.gap / speed\<close> is
  \<open>0.1 / 20 = 0.005\<close>, the smallest of the four terms, so \<open>time_cush\<close> is 0.005 and not
  0.2, and the severity is not 2.4.
\<close>

theorem C4_time_cush_counterexample:
  "time_cush (window0 0.2 0.1) (window0 5 5) (Fin 20) = Inr (Fin 0.005)
   \<and> time_cush (window0 0.2 0.1) (window0 5 5) (Fin 20) \<noteq> Inr (Fin 0.2)
   \<and> time_severity (Fin 1) (Fin 0.005) \<noteq> Inr (Fin 2.4)"
  by (simp add: time_cush_def time_severity_def window0_def float_defs)

text \<open>
  C4, amended.  The emergency-brake gate computes
  \<open>time_cush = max(0, min(target.time_left, target.gap/speed, current.time_left,
  current.gap/speed))\<close>; for the S4 inputs (speed 20, tau 1.0, target.time_left 0.2,
  target.gap 0.1, current.time_left 5, current.gap 5) this is 0.005, the severity is
  \<open>3 * (1.0 - 0.005) / 1.0 = 2.985\<close>, clipped to 1.0, and the returned acceleration is
  \<open>-emergencyDecel = -4.5\<close> (a \<open>numpy.float64\<close>, as \<open>np.clip\<close> returns one).
\<close>

theorem C4_emergency_brake_gate:
  "(time_left tlw = Fin tl1 \<and> gap tlw = Fin g1 \<and> time_left lw = Fin tl2 \<and> gap lw = Fin g2
      \<and> s \<noteq> 0 \<longrightarrow>
      time_cush tlw lw (Fin s)
        = Inr (Fin (max 0 (min (min (min tl1 (g1 / s)) tl2) (g2 / s)))))
   \<and> time_cush (window0 0.2 0.1) (window0 5 5) (Fin 20) = Inr (Fin 0.005)
   \<and> time_severity (Fin 1) (Fin 0.005) = Inr (Fin 2.985)
   \<and> np_clip (Fin 2.985) (Fin 0) (Fin 1) = NpFin 1
   \<and> compute_acceleration env
        (a\<lparr>target_lane_win := Some (window0 0.2 0.1), lane_win := Some (window0 5 5),
           a_vtype := vt0, a_state := (a_state a)\<lparr>speed := Fin 20\<rparr>\<rparr>) dt = Inr (NpFin (- 4.5))"
proof -
  have gen: "time_cush tlw lw (Fin s)
        = Inr (Fin (max 0 (min (min (min tl1 (g1 / s)) tl2) (g2 / s))))"
    if "time_left tlw = Fin tl1" "gap tlw = Fin g1" "time_left lw = Fin tl2" "gap lw = Fin g2"
       "s \<noteq> 0"
    using that by (simp add: time_cush_def py_min_def py_max_def min_def max_def)
  have s4: "time_cush (window0 0.2 0.1) (window0 5 5) (Fin 20) = Inr (Fin 0.005)"
    by (simp add: time_cush_def window0_def float_defs)
  have sev: "time_severity (Fin 1) (Fin 0.005) = Inr (Fin 2.985)"
    by (simp add: time_severity_def float_defs)
  have clip: "np_clip (Fin 2.985) (Fin 0) (Fin 1) = NpFin 1"
    by (simp add: np_clip_def)
  have acc: "compute_acceleration env
        (a\<lparr>target_lane_win := Some (window0 0.2 0.1), lane_win := Some (window0 5 5),
           a_vtype := vt0, a_state := (a_state a)\<lparr>speed := Fin 20\<rparr>\<rparr>) dt = Inr (NpFin (- 4.5))"
    by (simp add: compute_acceleration_def time_cush_def time_severity_def window0_def
        float_defs a_speed_def vtype_get_def vt0_def Let_def)
  from gen s4 sev clip acc show ?thesis by blast
qed

text \<open>Witness of C4 (amended): the general formula at the S4 inputs.\<close>

theorem C4_emergency_brake_gate_witness:
  "time_left (window0 0.2 0.1) = Fin 0.2 \<and> gap (window0 0.2 0.1) = Fin 0.1
   \<and> time_left (window0 5 5) = Fin 5 \<and> gap (window0 5 5) = Fin 5 \<and> (20::real) \<noteq> 0
   \<and> time_cush (window0 0.2 0.1) (window0 5 5) (Fin 20)
        = Inr (Fin (max 0 (min (min (min 0.2 (0.1 / 20)) 5) (5 / 20))))"
  using C4_emergency_brake_gate
    [where tlw = "window0 0.2 0.1" and lw = "window0 5 5" and ?tl1.0 = "0.2" and ?g1.0 = "0.1"
       and ?tl2.0 = 5 and ?g2.0 = 5 and s = 20]
  by (simp add: window0_def)

text \<open>
  C5 on the code: an actor that holds a cut-in commitment to its present lane, with 2.95
  seconds accumulated, is stepped by 0.1 s.  The accumulated time becomes 3.05, beyond
  \<open>cutin_hold_secs = 3\<close>, and the commitment is still there: the test that should
  release it reads \<open>_in_front_secs\<close>, which stays 0.
\<close>

theorem C5_commitment_never_released:
  "map_sum id (cutting_into \<circ> snd)
     (compute_next_state env0 cutin_prov cutin_actor (Fin 0.1) (all_states cutin_prov))
     = Inr (Some (window0 10 16))
   \<and> map_sum id (in_front_after_cutin_secs \<circ> snd)
       (compute_next_state env0 cutin_prov cutin_actor (Fin 0.1) (all_states cutin_prov))
     = Inr (Fin 3.05)
   \<and> map_sum id (in_front_secs \<circ> snd)
       (compute_next_state env0 cutin_prov cutin_actor (Fin 0.1) (all_states cutin_prov))
     = Inr (Some (Fin 0))
   \<and> cutin_hold_secs cutin_actor = Fin 3"
  by (simp add: cutin_prov_def cutin_actor_def window0_def provider_defs control_defs select_defs
      window_defs float_defs scen_defs Let_def)

text \<open>
  C6.  Let \<open>from_flow\<close> build the new actor.  Then \<open>_add_actor_in_flow\<close> returns without
  an exception, and returns true iff the actor's cushion-padded box intersects no
  reserved area and no managed actor's box; building the actor changes neither the managed
  actors nor the flows.  For a flow that is due at \<open>sim_time\<close>: if the actor is admitted it
  is stored under its id and the flow's \<open>last_added\<close> becomes \<open>sim_time\<close>; if not, the
  managed actors and the flows (so \<open>last_added\<close>) are as before, and the flow is due
  again at the next tick.
\<close>

theorem C6_emission_admission:
  assumes ff: "from_flow env prov flow = Inr (prov1, new_actor)"
  shows "add_actor_in_flow env prov flow
           = Inr (if no_conflict env prov new_actor
                  then prov1\<lparr>my_actors :=
                         AList.update (actor_id new_actor) new_actor (my_actors prov)\<rparr>
                  else prov1,
                  no_conflict env prov new_actor)
       \<and> fleet_unchanged prov prov1
       \<and> (dict_get (flows prov) k = Inr flow
            \<and> flow_begin flow \<le> sim_time \<and> sim_time < flow_end flow
            \<and> (case last_added flow of
                  None \<Rightarrow> True | Some la \<Rightarrow> emit_period flow \<le> sim_time - la)
          \<longrightarrow> (\<exists>prov'. emit_for_flow env sim_time prov k = Inr prov'
                \<and> (if no_conflict env prov new_actor
                    then my_actors prov'
                           = AList.update (actor_id new_actor) new_actor (my_actors prov)
                       \<and> flows prov'
                           = AList.update k (flow\<lparr>last_added := Some sim_time\<rparr>) (flows prov)
                    else my_actors prov' = my_actors prov \<and> flows prov' = flows prov)))"
proof -
  from from_flow_frame [OF ff] have fu: "fleet_unchanged prov prov1" .
  then have eq: "my_actors prov1 = my_actors prov" "flows prov1 = flows prov"
    "reserved_areas prov1 = reserved_areas prov"
    by (simp_all add: fleet_unchanged_def)
  have add: "add_actor_in_flow env prov flow
           = Inr (if no_conflict env prov new_actor
                  then prov1\<lparr>my_actors :=
                         AList.update (actor_id new_actor) new_actor (my_actors prov)\<rparr>
                  else prov1,
                  no_conflict env prov new_actor)"
    unfolding add_actor_in_flow_def no_conflict_def
    by (simp add: ff eq Let_def list_ex_pairs)
  have emit: "\<exists>prov'. emit_for_flow env sim_time prov k = Inr prov'
                \<and> (if no_conflict env prov new_actor
                    then my_actors prov'
                           = AList.update (actor_id new_actor) new_actor (my_actors prov)
                       \<and> flows prov'
                           = AList.update k (flow\<lparr>last_added := Some sim_time\<rparr>) (flows prov)
                    else my_actors prov' = my_actors prov \<and> flows prov' = flows prov)"
    if "dict_get (flows prov) k = Inr flow" "flow_begin flow \<le> sim_time"
       "sim_time < flow_end flow"
       "case last_added flow of None \<Rightarrow> True | Some la \<Rightarrow> emit_period flow \<le> sim_time - la"
    using that unfolding emit_for_flow_def
    by (simp add: add eq)
  from add fu emit show ?thesis by blast
qed

text \<open>
  Witness of C6: \<open>flow0\<close> at time 0, once on the empty road (admitted) and once with a
  reserved area over the depart position (not admitted).
\<close>

theorem C6_emission_admission_witness:
  "(\<exists>prov'. from_flow env0 (prov0 [(''f0'', flow0)] []) flow0
        = Inr ((prov0 [(''f0'', flow0)] [])\<lparr>actors_created := 1, rng_draws := 1\<rparr>, emitted0)
     \<and> no_conflict env0 (prov0 [(''f0'', flow0)] []) emitted0
     \<and> emit_for_flow env0 (Fin 0) (prov0 [(''f0'', flow0)] []) ''f0'' = Inr prov'
     \<and> my_actors prov' = [(''car-1'', emitted0)]
     \<and> flows prov' = [(''f0'', flow0\<lparr>last_added := Some (Fin 0)\<rparr>)])
   \<and> (\<exists>prov'. from_flow env0 reserved_prov flow0
        = Inr (reserved_prov\<lparr>actors_created := 1, rng_draws := 1\<rparr>, emitted0)
     \<and> \<not> no_conflict env0 reserved_prov emitted0
     \<and> emit_for_flow env0 (Fin 0) reserved_prov ''f0'' = Inr prov'
     \<and> my_actors prov' = []
     \<and> flows prov' = [(''f0'', flow0)])"
proof -
  have nc: "no_conflict env0 (prov0 [(''f0'', flow0)] []) emitted0"
    by (simp add: no_conflict_def prov0_def)
  have c: "\<not> no_conflict env0 reserved_prov emitted0"
    by (simp add: no_conflict_def reserved_prov_def prov0_def bbox_def emitted0_def
        intersects0_def float_defs scen_defs Let_def)
  have due: "dict_get (flows (prov0 [(''f0'', flow0)] [])) ''f0'' = Inr flow0
      \<and> flow_begin flow0 \<le> Fin 0 \<and> Fin 0 < flow_end flow0
      \<and> (case last_added flow0 of None \<Rightarrow> True | Some la \<Rightarrow> emit_period flow0 \<le> Fin 0 - la)"
    by (simp add: dict_get_def prov0_def flow0_def)
  have due': "dict_get (flows reserved_prov) ''f0'' = Inr flow0
      \<and> flow_begin flow0 \<le> Fin 0 \<and> Fin 0 < flow_end flow0
      \<and> (case last_added flow0 of None \<Rightarrow> True | Some la \<Rightarrow> emit_period flow0 \<le> Fin 0 - la)"
    by (simp add: dict_get_def prov0_def reserved_prov_def flow0_def)
  have id: "actor_id emitted0 = ''car-1''"
    by (simp add: actor_id_def emitted0_def scen_defs)
  from C6_emission_admission [OF from_flow_scenario, of "''f0''" "Fin 0"] due nc
  obtain p1 where
    "emit_for_flow env0 (Fin 0) (prov0 [(''f0'', flow0)] []) ''f0'' = Inr p1"
    "my_actors p1 = AList.update (actor_id emitted0) emitted0 (my_actors (prov0 [(''f0'', flow0)] []))"
    "flows p1 = AList.update ''f0'' (flow0\<lparr>last_added := Some (Fin 0)\<rparr>)
                  (flows (prov0 [(''f0'', flow0)] []))"
    by auto
  then have ok: "\<exists>prov'. emit_for_flow env0 (Fin 0) (prov0 [(''f0'', flow0)] []) ''f0'' = Inr prov'
     \<and> my_actors prov' = [(''car-1'', emitted0)]
     \<and> flows prov' = [(''f0'', flow0\<lparr>last_added := Some (Fin 0)\<rparr>)]"
    by (simp add: id prov0_def)
  from C6_emission_admission [OF from_flow_reserved, of "''f0''" "Fin 0"] due' c
  obtain p2 where
    "emit_for_flow env0 (Fin 0) reserved_prov ''f0'' = Inr p2"
    "my_actors p2 = my_actors reserved_prov" "flows p2 = flows reserved_prov"
    by auto
  then have ko: "\<exists>prov'. emit_for_flow env0 (Fin 0) reserved_prov ''f0'' = Inr prov'
     \<and> my_actors prov' = [] \<and> flows prov' = [(''f0'', flow0)]"
    by (simp add: reserved_prov_def prov0_def)
  from from_flow_scenario from_flow_reserved nc c ok ko show ?thesis
    by blast
qed

text \<open>
  C7 on the code: with \<open>lcAssertive = 0\<close>, or with \<open>lcCutinProb = 1.5\<close>, \<open>__init__\<close>
  raises \<open>AttributeError\<close> (at \<open>self._log.warning\<close>) before it clamps anything, and so
  does \<open>from_flow\<close> for a flow of such a vehicle type.
\<close>

theorem C7_clamp_raises:
  "init_actor env prov
     (flow\<lparr>flow_vtype := \<lparr>num_attr = (\<lambda>k. if k = ''lcAssertive'' then Some (Fin 0) else None),
                           str_attr = strs\<rparr>\<rparr>) = Inl AttributeError
   \<and> init_actor env prov
     (flow\<lparr>flow_vtype := \<lparr>num_attr = (\<lambda>k. if k = ''lcCutinProb'' then Some (Fin 1.5) else None),
                           str_attr = strs\<rparr>\<rparr>) = Inl AttributeError
   \<and> from_flow env0 (prov0 [] [])
        (flow0\<lparr>flow_vtype := vt0\<lparr>num_attr :=
                    (\<lambda>k. if k = ''lcAssertive'' then Some (Fin (- 1)) else None)\<rparr>\<rparr>)
       = Inl AttributeError"
  by (simp add: init_actor_def from_flow_def vtype_get_def Let_def scen_defs)

text \<open>
  C9, as stated, fails for \<open>destroy\<close>: it leaves the managed actors, the foreign vehicles
  and the reserved areas in place.
\<close>

theorem C9_destroy_counterexample:
  "my_actors (destroy busy_prov) \<noteq> []
   \<and> other_vehicles (destroy busy_prov) \<noteq> []
   \<and> reserved_areas (destroy busy_prov) \<noteq> []"
  by (simp add: destroy_def busy_prov_def prov0_def)

text \<open>
  C9, amended.  After \<open>teardown\<close> the managed actors, the foreign vehicles and the
  reserved areas are empty; \<open>destroy\<close> changes nothing.
\<close>

theorem C9_teardown_clears:
  "my_actors (teardown prov) = [] \<and> other_vehicles (teardown prov) = []
   \<and> reserved_areas (teardown prov) = [] \<and> destroy prov = prov"
  by (simp add: teardown_def destroy_def)

text \<open>
  C10, as stated, fails: not every actor whose speed equals 0 makes \<open>compute_next_state\<close>
  raise.  The actor at rest whose speed is a \<open>numpy.float64\<close> zero is stepped normally:
  \<open>path_len / speed\<close> and \<open>gap / speed\<close> are \<open>inf\<close>, no gate fires, the controller
  accelerates, and the tick commits the speed \<open>0.156\<close>.  And where the speed is the
  Python float 0 but the position, hence \<open>path_len\<close>, is a numpy scalar,
  \<open>_compute_lane_window\<close> returns a window.
\<close>

theorem C10_numpy_zero_speed_counterexample:
  "py_eq (speed (a_state np_stopped_actor)) (Fin 0)
   \<and> map_sum id (next_speed \<circ> snd)
        (compute_next_state env0 (prov0 [] [(''car-1'', np_stopped_actor)]) np_stopped_actor
           (Fin 0.1) [a_state np_stopped_actor]) = Inr (Some (NpFin 0.156))
   \<and> map_sum id (map speed \<circ> snd)
        (provider_step env0 (prov0 [] [(''car-1'', np_stopped_actor)]) (Fin 0.1) (Fin 5))
       = Inr [NpFin 0.156]
   \<and> speed (a_state stopped_actor_np_pos) = Fin 0
   \<and> \<not> isl (compute_lane_window env0 (prov0 [] [(''car-1'', stopped_actor_np_pos)])
               stopped_actor_np_pos ''E2_0'')"
  by (simp add: provider_defs control_defs select_defs window_defs float_defs scen_defs
      np_stopped_actor_def stopped_actor_np_pos_def stopped_actor_def window0_def Let_def)

text \<open>
  C10, amended.  The divisions by the speed raise only between Python numbers.  For an
  actor whose speed is the Python float 0 (as the default \<open>departSpeed\<close> 0.0 is):
  \<open>compute_next_state\<close> does not return normally when \<open>path_len\<close> is a Python float on
  the lanes of the actor's road; \<open>_compute_lane_window\<close> raises \<open>ZeroDivisionError\<close> at
  \<open>path_len / self.speed\<close> when the route table exists and \<open>path_len\<close> is a Python
  float; the time cushion of the acceleration gate raises it at \<open>gap / self.speed\<close> when
  one of the two gaps is a Python number, and so does \<open>_compute_acceleration\<close> once it
  is past its first assertion.  For an actor whose speed is a \<open>numpy.float64\<close> (zero or
  not) \<open>_compute_lane_window\<close> never raises \<open>ZeroDivisionError\<close> and the time cushion
  is always computed.  A flow without \<open>departSpeed\<close> departs at the Python float 0.
\<close>

theorem C10_zero_speed_division:
  "(speed (a_state a) = Fin 0
      \<and> (\<forall>lane \<in> set (road_lanes (the_road_map env) (lane_road (the_road_map env) (a_lane a))).
            \<forall>t. dict_get (route_lane_lengths prov) (a_route_id a) = Inr t
              \<longrightarrow> kind_of (lane_path_len env t a lane) = Py)
      \<longrightarrow> (\<exists>e. compute_next_state env prov a dt sts = Inl e))
   \<and> (speed (a_state a) = Fin 0
        \<and> dict_get (route_lane_lengths prov) (a_route_id a) = Inr t
        \<and> kind_of (lane_path_len env t a lane) = Py
      \<longrightarrow> compute_lane_window env prov a lane = Inl ZeroDivisionError)
   \<and> (kind_of (gap tlw) = Py \<or> kind_of (gap lw) = Py
      \<longrightarrow> time_cush tlw lw (Fin 0) = Inl ZeroDivisionError)
   \<and> (speed (a_state a) = Fin 0 \<and> target_lane_win a = Some tlw \<and> lane_win a = Some lw
        \<and> (kind_of (gap tlw) = Py \<or> kind_of (gap lw) = Py)
        \<and> Fin 0 \<le> vtype_get (a_vtype a) ''emergencyDecel'' (Fin 4.5)
      \<longrightarrow> compute_acceleration env a dt = Inl ZeroDivisionError)
   \<and> (kind_of (speed (a_state a)) = Np
      \<longrightarrow> compute_lane_window env prov a lane \<noteq> Inl ZeroDivisionError
          \<and> (\<exists>tc. time_cush tlw lw (speed (a_state a)) = Inr tc))
   \<and> resolve_flow_speed env prov vt lane (flow\<lparr>departSpeed := None\<rparr>) = Inr (prov, Fin 0)"
proof -
  have 1: "\<exists>e. compute_next_state env prov a dt sts = Inl e"
    if "speed (a_state a) = Fin 0"
       "\<forall>lane \<in> set (road_lanes (the_road_map env) (lane_road (the_road_map env) (a_lane a))).
            \<forall>t. dict_get (route_lane_lengths prov) (a_route_id a) = Inr t
              \<longrightarrow> kind_of (lane_path_len env t a lane) = Py"
    using that by (rule compute_next_state_py_zero)
  have 2: "compute_lane_window env prov a lane = Inl ZeroDivisionError"
    if "speed (a_state a) = Fin 0" "dict_get (route_lane_lengths prov) (a_route_id a) = Inr t"
       "kind_of (lane_path_len env t a lane) = Py"
    using that compute_lane_window_py_zero [of a prov t env lane] by (simp add: a_speed_def)
  have 3: "time_cush tlw lw (Fin 0) = Inl ZeroDivisionError"
    if "kind_of (gap tlw) = Py \<or> kind_of (gap lw) = Py"
    using that by (rule time_cush_py_zero)
  have 4: "compute_acceleration env a dt = Inl ZeroDivisionError"
    if "speed (a_state a) = Fin 0" "target_lane_win a = Some tlw" "lane_win a = Some lw"
       "kind_of (gap tlw) = Py \<or> kind_of (gap lw) = Py"
       "Fin 0 \<le> vtype_get (a_vtype a) ''emergencyDecel'' (Fin 4.5)"
    using that 3 by (simp add: compute_acceleration_def a_speed_def Let_def)
  have 5: "compute_lane_window env prov a lane \<noteq> Inl ZeroDivisionError
           \<and> (\<exists>tc. time_cush tlw lw (speed (a_state a)) = Inr tc)"
    if "kind_of (speed (a_state a)) = Np"
    using that compute_lane_window_np_speed [of a env prov lane]
      time_cush_np_total [of "speed (a_state a)" tlw lw]
    by (simp add: a_speed_def)
  have 6: "resolve_flow_speed env prov vt lane (flow\<lparr>departSpeed := None\<rparr>) = Inr (prov, Fin 0)"
    by (simp add: resolve_flow_speed_def)
  from 1 2 3 4 5 6 show ?thesis by blast
qed

text \<open>
  Witness of C10 (amended): the actor of the scenario at rest, its speed the Python
  float 0 and all lengths and offsets Python floats, and the same actor with the
  \<open>numpy.float64\<close> zero as its speed.
\<close>

theorem C10_zero_speed_division_witness:
  "speed (a_state stopped_actor) = Fin 0
   \<and> road_lanes (the_road_map env0) (lane_road (the_road_map env0) (a_lane stopped_actor))
        = [''E2_0'']
   \<and> compute_next_state env0 (prov0 [] [(''car-1'', stopped_actor)]) stopped_actor (Fin 0.1)
        [a_state stopped_actor] = Inl ZeroDivisionError
   \<and> dict_get (route_lane_lengths (prov0 [] [(''car-1'', stopped_actor)]))
        (a_route_id stopped_actor) = Inr [((''E1_0'', 0), Fin 200), ((''E2_0'', 1), Fin 100)]
   \<and> kind_of (lane_path_len env0 [((''E1_0'', 0), Fin 200), ((''E2_0'', 1), Fin 100)]
                 stopped_actor ''E2_0'') = Py
   \<and> compute_lane_window env0 (prov0 [] [(''car-1'', stopped_actor)]) stopped_actor ''E2_0''
        = Inl ZeroDivisionError
   \<and> target_lane_win stopped_actor = Some (window0 10 16)
   \<and> lane_win stopped_actor = Some (window0 10 16)
   \<and> kind_of (gap (window0 10 16)) = Py
   \<and> time_cush (window0 10 16) (window0 10 16) (Fin 0) = Inl ZeroDivisionError
   \<and> Fin 0 \<le> vtype_get (a_vtype stopped_actor) ''emergencyDecel'' (Fin 4.5)
   \<and> compute_acceleration env0 stopped_actor (Fin 0.1) = Inl ZeroDivisionError
   \<and> kind_of (speed (a_state np_stopped_actor)) = Np
   \<and> compute_lane_window env0 (prov0 [] [(''car-1'', np_stopped_actor)]) np_stopped_actor
        ''E2_0'' \<noteq> Inl ZeroDivisionError
   \<and> time_cush (window0 10 16) (window0 10 16) (speed (a_state np_stopped_actor))
        = Inr (Fin 10)"
proof -
  let ?P = "prov0 [] [(''car-1'', stopped_actor)]"
  let ?t = "[((''E1_0'', 0), Fin 200), ((''E2_0'', 1), Fin 100)]"
  have s: "speed (a_state stopped_actor) = Fin 0"
    by (simp add: stopped_actor_def scen_defs)
  have t: "dict_get (route_lane_lengths ?P) (a_route_id stopped_actor) = Inr ?t"
    by (simp add: stopped_actor_def dict_get_def scen_defs)
  have k: "kind_of (lane_path_len env0 ?t stopped_actor ''E2_0'') = Py"
    by (simp add: lane_path_len_def stopped_actor_def scen_defs float_defs)
  have ks: "\<forall>lane \<in> set (road_lanes (the_road_map env0)
                      (lane_road (the_road_map env0) (a_lane stopped_actor))).
         \<forall>t. dict_get (route_lane_lengths ?P) (a_route_id stopped_actor) = Inr t
           \<longrightarrow> kind_of (lane_path_len env0 t stopped_actor lane) = Py"
    using k t by (simp add: stopped_actor_def scen_defs)
  have w: "target_lane_win stopped_actor = Some (window0 10 16)"
    "lane_win stopped_actor = Some (window0 10 16)"
    "Fin 0 \<le> vtype_get (a_vtype stopped_actor) ''emergencyDecel'' (Fin 4.5)"
    "kind_of (gap (window0 10 16)) = Py"
    by (simp_all add: stopped_actor_def window0_def vtype_get_def scen_defs)
  have ev: "compute_next_state env0 ?P stopped_actor (Fin 0.1) [a_state stopped_actor]
              = Inl ZeroDivisionError"
    by (simp add: stopped_actor_def window0_def control_defs select_defs window_defs
        float_defs scen_defs Let_def)
  have n: "kind_of (speed (a_state np_stopped_actor)) = Np"
    by (simp add: np_stopped_actor_def scen_defs)
  have tc: "time_cush (window0 10 16) (window0 10 16) (speed (a_state np_stopped_actor))
              = Inr (Fin 10)"
    by (simp add: np_stopped_actor_def window0_def time_cush_def scen_defs float_defs)
  note py = C10_zero_speed_division
    [of stopped_actor env0 ?P "Fin 0.1" "[a_state stopped_actor]" ?t "''E2_0''"
       "window0 10 16" "window0 10 16"]
  note np = C10_zero_speed_division
    [of np_stopped_actor env0 "prov0 [] [(''car-1'', np_stopped_actor)]" "Fin 0.1"
       "[a_state np_stopped_actor]" ?t "''E2_0''" "window0 10 16" "window0 10 16"]
  from py s ks
  have "\<exists>e. compute_next_state env0 ?P stopped_actor (Fin 0.1) [a_state stopped_actor] = Inl e"
    by blast
  from py s t k w have a: "compute_lane_window env0 ?P stopped_actor ''E2_0''
        = Inl ZeroDivisionError"
    "time_cush (window0 10 16) (window0 10 16) (Fin 0) = Inl ZeroDivisionError"
    "compute_acceleration env0 stopped_actor (Fin 0.1) = Inl ZeroDivisionError"
    by blast+
  from np n have b: "compute_lane_window env0 (prov0 [] [(''car-1'', np_stopped_actor)])
        np_stopped_actor ''E2_0'' \<noteq> Inl ZeroDivisionError"
    by blast
  have rl: "road_lanes (the_road_map env0) (lane_road (the_road_map env0) (a_lane stopped_actor))
        = [''E2_0'']"
    by (simp add: stopped_actor_def scen_defs)
  from s rl ev t k a w n b tc show ?thesis by blast
qed

end
